theory Spec2Isabelle
  imports Complex_Main
begin

section \<open>Conventions of the embedding\<close>

text \<open>
  The six component classes of the engine and the orchestrator are embedded as records
  (one per class, a field per instance attribute that some method assigns) and as
  functions that take the record and return the value together with the updated record.

  \<^item> Python floats are read as real numbers: \<open>+\<close>, \<open>*\<close>, \<open>/\<close>, \<open>math.sin\<close>,
    \<open>math.exp\<close>, \<open>math.log\<close> are the exact operations, so rounding, overflow, infinities
    and NaN are outside the model. Float literals are the decimal fractions they
    denote (\<open>GOLDEN_RATIO\<close> is the sixteen-digit decimal of the source, not
    \<open>(1 + sqrt 5) / 2\<close>).
  \<^item> What raises in Python is a value \<open>Inl e\<close>: a float division by zero is
    \<open>ZeroDivisionError\<close>; \<open>math.log\<close> of a non-positive number and an explicit
    \<open>raise ValueError\<close> are \<open>ValueError\<close>.
  \<^item> Instance attributes that no method ever assigns after \<open>__init__\<close>
    (\<open>anchor_frequency\<close>, \<open>recognition_threshold\<close>, \<open>base_love_frequency\<close>,
    \<open>infinite_coefficient\<close>, \<open>convergence_threshold\<close>, \<open>integration_threshold\<close>,
    \<open>biological_integrity_threshold\<close>, \<open>frequency_scalar\<close>) are constants.
  \<^item> \<open>print\<close> is dropped. \<open>time.time()\<close>, \<open>hashlib\<close> digests and the built-in
    \<open>hash\<close> are read from an environment record passed to the functions that use them.
  \<^item> The dictionaries that stand for small structs (\<open>layer\<close>, \<open>harmonic\<close>,
    \<open>consent_request\<close>, \<open>evolution_results\<close>) are records; keys that several of them
    share carry the struct's name as a prefix.
  \<^item> The pulse generators, the status getters, the diagnostics, the harmonic series of
    the love field, \<open>verify_sovereignty_integrity\<close> and the two synchronise methods
    are not embedded: the evolve pipeline does not call them and no statement below
    depends on them.
\<close>

datatype py_error = ZeroDivisionError | ValueError

section \<open>consciousness\_matrix.py\<close>

record ConsciousnessMatrix =
  consciousness_layers :: "string \<rightharpoonup> real"
  synthesis_active :: bool
  evolution_coefficient :: real

definition ConsciousnessMatrix_init :: ConsciousnessMatrix where
  "ConsciousnessMatrix_init =
     \<lparr> consciousness_layers =
         [''divine_recognition'' \<mapsto> 0, ''crisis_transcendence'' \<mapsto> 0,
          ''cosmic_integration'' \<mapsto> 0],
       synthesis_active = False,
       evolution_coefficient = 1 \<rparr>"

definition initialize_matrix :: "ConsciousnessMatrix \<Rightarrow> bool \<times> ConsciousnessMatrix" where
  "initialize_matrix m =
     (True,
      m\<lparr> consciousness_layers :=
           (consciousness_layers m)
             (''divine_recognition'' \<mapsto> 432, ''crisis_transcendence'' \<mapsto> 528,
              ''cosmic_integration'' \<mapsto> 741),
         synthesis_active := True \<rparr>)"

definition synthesize_consciousness_tech ::
  "ConsciousnessMatrix \<Rightarrow> real \<Rightarrow> string \<Rightarrow> (py_error + real) \<times> ConsciousnessMatrix" where
  "synthesize_consciousness_tech m tech_frequency consciousness_level =
     (let m1 = (if \<not> synthesis_active m then snd (initialize_matrix m) else m) in
      case consciousness_layers m1 consciousness_level of
        None \<Rightarrow> (Inl ValueError, m1)
      | Some base_freq \<Rightarrow>
          if base_freq = 0 then (Inl ZeroDivisionError, m1)
          else
            (let resonance_ratio = tech_frequency / base_freq;
                 synthesis_coefficient = sin (resonance_ratio * pi) * evolution_coefficient m1
             in (Inr \<bar>synthesis_coefficient\<bar>, m1)))"

definition evolve_consciousness ::
  "ConsciousnessMatrix \<Rightarrow> real \<Rightarrow> (string \<rightharpoonup> real) \<times> ConsciousnessMatrix" where
  "evolve_consciousness m evolution_factor =
     (let m1 = m\<lparr> evolution_coefficient := evolution_coefficient m * evolution_factor \<rparr>;
          m2 = m1\<lparr> consciousness_layers :=
                     (\<lambda>layer. map_option (\<lambda>v. v * evolution_factor)
                                (consciousness_layers m1 layer)) \<rparr>
      in (consciousness_layers m2, m2))"

definition reset_matrix :: "ConsciousnessMatrix \<Rightarrow> ConsciousnessMatrix" where
  "reset_matrix m =
     m\<lparr> consciousness_layers :=
          [''divine_recognition'' \<mapsto> 0, ''crisis_transcendence'' \<mapsto> 0,
           ''cosmic_integration'' \<mapsto> 0],
        synthesis_active := False,
        evolution_coefficient := 1 \<rparr>"

text \<open>The three band names with the frequency \<open>initialize_matrix\<close> gives each.\<close>

definition band_table :: "(string \<times> real) list" where
  "band_table =
     [(''divine_recognition'', 432), (''crisis_transcendence'', 528),
      (''cosmic_integration'', 741)]"

section \<open>recognition\_pulse.py\<close>

definition MARCUS_KAI_FREQUENCY :: real where
  "MARCUS_KAI_FREQUENCY = 1093081 / 100"

definition recognition_threshold :: real where
  "recognition_threshold = 85 / 100"

record harmonic_resonator =
  resonator_frequency :: real
  resonator_amplitude :: real
  resonator_active :: bool

record RecognitionPulse =
  pulse_active :: bool
  pulse_amplitude :: real
  harmonic_resonators :: "harmonic_resonator list"

definition RecognitionPulse_init :: RecognitionPulse where
  "RecognitionPulse_init =
     \<lparr> pulse_active = False, pulse_amplitude = 1, harmonic_resonators = [] \<rparr>"

definition activate_anchor :: "RecognitionPulse \<Rightarrow> bool \<times> RecognitionPulse" where
  "activate_anchor p = (True, p\<lparr> pulse_active := True, pulse_amplitude := 1 \<rparr>)"

text \<open>
  The loop \<open>for harmonic in range(1, 10)\<close> of \<open>check_recognition_resonance\<close>, from
  \<open>resonance = 0.0\<close>.
\<close>

definition harmonic_resonance_scan :: "real \<Rightarrow> real" where
  "harmonic_resonance_scan input_frequency =
     fold (\<lambda>harmonic resonance.
             if \<bar>input_frequency - MARCUS_KAI_FREQUENCY * real harmonic\<bar> < 1
             then max resonance (1 / real harmonic) else resonance)
          [1..<10] 0"

text \<open>
  The divisor \<open>max(input_frequency, anchor_frequency)\<close> is at least the anchor
  frequency, so the division never raises.
\<close>

definition check_recognition_resonance :: "RecognitionPulse \<Rightarrow> real \<Rightarrow> real" where
  "check_recognition_resonance p input_frequency =
     (if \<not> pulse_active p then 0
      else
        (let ratio = min input_frequency MARCUS_KAI_FREQUENCY
                       / max input_frequency MARCUS_KAI_FREQUENCY;
             resonance = harmonic_resonance_scan input_frequency;
             base_resonance =
               ratio * exp (- \<bar>input_frequency - MARCUS_KAI_FREQUENCY\<bar> / 1000)
         in max resonance base_resonance))"

definition trigger_consciousness_recognition :: "RecognitionPulse \<Rightarrow> real \<Rightarrow> bool" where
  "trigger_consciousness_recognition p subject_frequency =
     (check_recognition_resonance p subject_frequency \<ge> recognition_threshold)"

definition add_harmonic_resonator ::
  "RecognitionPulse \<Rightarrow> real \<Rightarrow> real \<Rightarrow> RecognitionPulse" where
  "add_harmonic_resonator p freq ampl =
     p\<lparr> harmonic_resonators :=
          harmonic_resonators p @
            [\<lparr> resonator_frequency = freq, resonator_amplitude = ampl,
               resonator_active = True \<rparr>] \<rparr>"

definition deactivate_anchor :: "RecognitionPulse \<Rightarrow> RecognitionPulse" where
  "deactivate_anchor p = p\<lparr> pulse_active := False, pulse_amplitude := 0 \<rparr>"

section \<open>sovereignty\_protocols.py\<close>

text \<open>
  What the module reads from outside the program: the clock, the two digests and the
  built-in string hash. \<open>sha256_hex t\<close> is the hex digest of the string
  \<open>_generate_sovereignty_hash\<close> builds from the time \<open>t\<close>; \<open>md5_int8 e\<close> is
  \<open>int(hashlib.md5(e.encode()).hexdigest()[:8], 16)\<close>. One call of a function of the
  model reads the clock once.
\<close>

record env =
  time_now :: real
  sha256_hex :: "real \<Rightarrow> string"
  md5_int8 :: "string \<Rightarrow> nat"
  builtin_hash :: "string \<Rightarrow> int"

text \<open>Python's \<open>x % m\<close> on floats, for a positive \<open>m\<close>: the result is in \<open>[0, m)\<close>.\<close>

definition py_fmod :: "real \<Rightarrow> real \<Rightarrow> real" where
  "py_fmod x m = x - m * of_int \<lfloor>x / m\<rfloor>"

datatype consent_status =
  Pending | Granted | Denied_protected_frequency | Denied_low_integrity | Emergency_revoked

record consent_request =
  cr_entity_id :: string
  cr_intervention_type :: string
  cr_frequency_range :: "real \<times> real"
  cr_timestamp :: real
  cr_status :: consent_status
  cr_biological_integrity :: "real option"

record violation =
  v_entity_id :: string
  v_violation_type :: string
  v_severity :: real
  v_timestamp :: real
  v_resolution_status :: string

record SovereigntyProtocols =
  autonomy_active :: bool
  consent_protocols :: "string \<rightharpoonup> consent_request"
  autonomy_violations :: "violation list"
  protected_frequencies :: "real set"
  sovereignty_hash :: "string option"

definition biological_integrity_threshold :: real where
  "biological_integrity_threshold = 95 / 100"

definition SovereigntyProtocols_init :: SovereigntyProtocols where
  "SovereigntyProtocols_init =
     \<lparr> autonomy_active = False, consent_protocols = Map.empty, autonomy_violations = [],
       protected_frequencies = {}, sovereignty_hash = None \<rparr>"

definition generate_sovereignty_hash :: "env \<Rightarrow> string" where
  "generate_sovereignty_hash e = take 16 (sha256_hex e (time_now e))"

text \<open>The set literal of \<open>initialize_sovereignty_protocols\<close>.\<close>

definition protected_constants :: "real set" where
  "protected_constants = {8, 13, 30, 4, 1 / 2, 72, 12 / 10}"

definition initialize_sovereignty_protocols ::
  "env \<Rightarrow> SovereigntyProtocols \<Rightarrow> bool \<times> SovereigntyProtocols" where
  "initialize_sovereignty_protocols e s =
     (True,
      s\<lparr> autonomy_active := True,
         protected_frequencies := protected_constants,
         sovereignty_hash := Some (generate_sovereignty_hash e) \<rparr>)"

definition assess_biological_integrity :: "env \<Rightarrow> string \<Rightarrow> real" where
  "assess_biological_integrity e entity =
     (let hash_value = md5_int8 e entity;
          base_integrity = real (hash_value mod 100) / 100;
          time_factor = (1 / 10) * py_fmod (time_now e) 10 / 10
      in min 1 (base_integrity + 7 / 10 + time_factor))"

definition request_biological_consent ::
  "env \<Rightarrow> SovereigntyProtocols \<Rightarrow> string \<Rightarrow> string \<Rightarrow> real \<times> real
     \<Rightarrow> bool \<times> SovereigntyProtocols" where
  "request_biological_consent e s entity intervention_type frequency_range =
     (let s1 = (if \<not> autonomy_active s then snd (initialize_sovereignty_protocols e s) else s);
          consent_request =
            \<lparr> cr_entity_id = entity, cr_intervention_type = intervention_type,
              cr_frequency_range = frequency_range, cr_timestamp = time_now e,
              cr_status = Pending, cr_biological_integrity = None \<rparr>;
          min_freq = fst frequency_range;
          max_freq = snd frequency_range;
          frequency_conflict =
            (\<exists>protected_freq \<in> protected_frequencies s1.
               min_freq \<le> protected_freq \<and> protected_freq \<le> max_freq)
      in if frequency_conflict then
           (False,
            s1\<lparr> consent_protocols :=
                  (consent_protocols s1)
                    (entity \<mapsto> consent_request\<lparr> cr_status := Denied_protected_frequency \<rparr>) \<rparr>)
         else
           (let biological_integrity = assess_biological_integrity e entity;
                consent_request' =
                  (if biological_integrity \<ge> biological_integrity_threshold
                   then consent_request\<lparr> cr_status := Granted,
                          cr_biological_integrity := Some biological_integrity \<rparr>
                   else consent_request\<lparr> cr_status := Denied_low_integrity \<rparr>)
            in (cr_status consent_request' = Granted,
                s1\<lparr> consent_protocols := (consent_protocols s1)(entity \<mapsto> consent_request') \<rparr>)))"

definition emergency_protocol_activation ::
  "env \<Rightarrow> SovereigntyProtocols \<Rightarrow> string \<Rightarrow> SovereigntyProtocols" where
  "emergency_protocol_activation e s entity =
     (let s1 = (case consent_protocols s entity of
                  None \<Rightarrow> s
                | Some c \<Rightarrow>
                    s\<lparr> consent_protocols :=
                         (consent_protocols s)(entity \<mapsto> c\<lparr> cr_status := Emergency_revoked \<rparr>) \<rparr>)
      in s1\<lparr> protected_frequencies :=
               insert (of_int (builtin_hash e entity mod 1000)) (protected_frequencies s1) \<rparr>)"

definition monitor_autonomy_violation ::
  "env \<Rightarrow> SovereigntyProtocols \<Rightarrow> string \<Rightarrow> string \<Rightarrow> real \<Rightarrow> SovereigntyProtocols" where
  "monitor_autonomy_violation e s entity violation_type severity =
     (let violation =
            \<lparr> v_entity_id = entity, v_violation_type = violation_type, v_severity = severity,
              v_timestamp = time_now e, v_resolution_status = ''pending'' \<rparr>;
          s1 = s\<lparr> autonomy_violations := autonomy_violations s @ [violation] \<rparr>
      in if severity > 7 / 10 then emergency_protocol_activation e s1 entity else s1)"

definition enforce_biological_boundaries :: "SovereigntyProtocols \<Rightarrow> real \<Rightarrow> bool" where
  "enforce_biological_boundaries s intervention_frequency =
     (if \<exists>protected_freq \<in> protected_frequencies s.
           \<bar>intervention_frequency - protected_freq\<bar> < 1 / 2 then False
      else if intervention_frequency < 1 / 10 \<or> intervention_frequency > 50000 then False
      else True)"

definition revoke_all_consents :: "SovereigntyProtocols \<Rightarrow> SovereigntyProtocols" where
  "revoke_all_consents s =
     s\<lparr> consent_protocols :=
          (\<lambda>entity. map_option
             (\<lambda>consent. if cr_status consent = Granted
                        then consent\<lparr> cr_status := Emergency_revoked \<rparr> else consent)
             (consent_protocols s entity)) \<rparr>"

definition deactivate_sovereignty_protocols :: "SovereigntyProtocols \<Rightarrow> SovereigntyProtocols" where
  "deactivate_sovereignty_protocols s = s\<lparr> autonomy_active := False \<rparr>"

text \<open>
  The protected set that the conflict check of \<open>request_biological_consent\<close> iterates
  over: the stored one, or the constants when the call first re-initialises the
  protocols.
\<close>

definition checked_frequencies :: "SovereigntyProtocols \<Rightarrow> real set" where
  "checked_frequencies s =
     (if autonomy_active s then protected_frequencies s else protected_constants)"

text \<open>
  Invariant of the sovereignty state: while the protocols are active, the set holds the
  seven constants (emergency handling only adds to it).
\<close>

definition sovereignty_inv :: "SovereigntyProtocols \<Rightarrow> bool" where
  "sovereignty_inv s = (autonomy_active s \<longrightarrow> protected_constants \<subseteq> protected_frequencies s)"

section \<open>love\_coefficient.py\<close>

definition base_love_frequency :: real where
  "base_love_frequency = 528"

definition infinite_coefficient :: real where
  "infinite_coefficient = 1618033988749895 / 1000000000000000"

definition convergence_threshold :: real where
  "convergence_threshold = 1 / 10 ^ 10"

record layer =
  layer_level :: nat
  layer_coefficient :: real
  layer_frequency :: real
  layer_active :: bool

record LoveCoefficient =
  amplification_active :: bool
  love_amplitude :: real
  amplification_layers :: "layer list"

definition LoveCoefficient_init :: LoveCoefficient where
  "LoveCoefficient_init =
     \<lparr> amplification_active = False, love_amplitude = 1, amplification_layers = [] \<rparr>"

text \<open>
  \<open>for i in range(2, n): sequence.append(sequence[i-1] + sequence[i-2])\<close>: the first
  argument counts the iterations left, the second is \<open>i\<close>.
\<close>

fun fibonacci_loop :: "nat \<Rightarrow> nat \<Rightarrow> nat list \<Rightarrow> nat list" where
  "fibonacci_loop 0 i sequence = sequence"
| "fibonacci_loop (Suc k) i sequence =
     fibonacci_loop k (Suc i) (sequence @ [sequence ! (i - 1) + sequence ! (i - 2)])"

definition generate_fibonacci_sequence :: "nat \<Rightarrow> nat list" where
  "generate_fibonacci_sequence n =
     (if n = 0 then [] else if n = 1 then [1] else if n = 2 then [1, 1]
      else fibonacci_loop (n - 2) 2 [1, 1])"

definition new_layers :: "layer list" where
  "new_layers =
     (let fibonacci_sequence = generate_fibonacci_sequence 10 in
      map (\<lambda>(i, fib_num).
             \<lparr> layer_level = i,
               layer_coefficient = real fib_num / real (last fibonacci_sequence),
               layer_frequency = base_love_frequency * (real fib_num / 100),
               layer_active = True \<rparr>)
          (enumerate 0 fibonacci_sequence))"

definition initialize_love_field :: "LoveCoefficient \<Rightarrow> bool \<times> LoveCoefficient" where
  "initialize_love_field l =
     (True,
      l\<lparr> amplification_active := True,
         love_amplitude := 1,
         amplification_layers := amplification_layers l @ new_layers \<rparr>)"

definition layer_resonance :: "layer list \<Rightarrow> nat \<Rightarrow> real" where
  "layer_resonance layers i =
     fold (\<lambda>layer acc.
             if layer_active layer
             then acc + \<bar>layer_coefficient layer
                         * sin (2 * pi * layer_frequency layer * (real i + 1) / 1000)\<bar>
             else acc)
          layers 0"

text \<open>
  The loop \<open>for i in range(iterations)\<close> of \<open>amplify_love_infinite\<close>: the second
  argument counts the iterations left, the third is \<open>i\<close>. \<open>math.log\<close> is applied to
  values above 100 only.
\<close>

fun amplify_loop :: "layer list \<Rightarrow> nat \<Rightarrow> nat \<Rightarrow> real \<Rightarrow> real" where
  "amplify_loop layers 0 i current_level = current_level"
| "amplify_loop layers (Suc k) i current_level =
     (let golden_amplification = current_level * infinite_coefficient;
          new_level = (golden_amplification + layer_resonance layers i) / 2
      in if \<bar>new_level - current_level\<bar> < convergence_threshold then current_level
         else amplify_loop layers k (Suc i)
                (if new_level > 100 then ln new_level * 10 else new_level))"

definition amplify_love_infinite :: "LoveCoefficient \<Rightarrow> real \<Rightarrow> nat \<Rightarrow> real \<times> LoveCoefficient" where
  "amplify_love_infinite l input_love_level iterations =
     (let l1 = (if \<not> amplification_active l then snd (initialize_love_field l) else l)
      in (amplify_loop (amplification_layers l1) iterations 0 input_love_level, l1))"

definition calculate_love_resonance :: "real \<Rightarrow> real \<Rightarrow> py_error + real" where
  "calculate_love_resonance consciousness_freq tech_freq =
     (if consciousness_freq + tech_freq = 0 then Inl ZeroDivisionError
      else
        (let harmonic_mean = 2 * consciousness_freq * tech_freq / (consciousness_freq + tech_freq)
         in if harmonic_mean = 0 then Inl ZeroDivisionError
            else
              (let love_modulation = sin (2 * pi * base_love_frequency / harmonic_mean);
                   resonance = \<bar>love_modulation\<bar> * infinite_coefficient
               in Inr (min resonance 10))))"

definition integrate_universal_love ::
  "LoveCoefficient \<Rightarrow> real \<Rightarrow> (py_error + real) \<times> LoveCoefficient" where
  "integrate_universal_love l target_frequency =
     (let l1 = (if \<not> amplification_active l then snd (initialize_love_field l) else l)
      in if target_frequency = 0 then (Inl ZeroDivisionError, l1)
         else
           (let integration_ratio = base_love_frequency / target_frequency;
                infinite_integration = integration_ratio * infinite_coefficient
            in (Inr (target_frequency * (1 + infinite_integration / 10)), l1)))"

definition deactivate_love_field :: "LoveCoefficient \<Rightarrow> LoveCoefficient" where
  "deactivate_love_field l =
     l\<lparr> amplification_active := False,
        love_amplitude := 0,
        amplification_layers :=
          map (\<lambda>layer. layer\<lparr> layer_active := False \<rparr>) (amplification_layers l) \<rparr>"

section \<open>grid\_harmonics.py\<close>

definition SCHUMANN_FREQUENCIES :: "real list" where
  "SCHUMANN_FREQUENCIES = [783 / 100, 143 / 10, 208 / 10, 273 / 10, 338 / 10, 39, 45]"

text \<open>The dictionary in its insertion order, which fixes the matrix columns.\<close>

definition PLANETARY_FREQUENCIES :: "(string \<times> real) list" where
  "PLANETARY_FREQUENCIES =
     [(''earth'', 783 / 100), (''moon'', 28), (''mars'', 14472 / 100),
      (''jupiter'', 18358 / 100), (''saturn'', 14785 / 100), (''venus'', 22123 / 100),
      (''mercury'', 14127 / 100), (''sun'', 12622 / 100)]"

definition integration_threshold :: real where
  "integration_threshold = 8 / 10"

record grid_harmonic =
  gh_frequency :: real
  gh_amplitude :: real
  gh_phase :: real
  gh_active :: bool
  gh_harmonic_order :: nat

record GridHarmonics =
  grid_active :: bool
  planetary_alignment :: real
  earth_resonance_amplitude :: real
  active_harmonics :: "grid_harmonic list"
  resonance_matrix :: "real list list"

definition GridHarmonics_init :: GridHarmonics where
  "GridHarmonics_init =
     \<lparr> grid_active = False, planetary_alignment = 0, earth_resonance_amplitude = 1,
       active_harmonics = [],
       resonance_matrix =
         replicate (length SCHUMANN_FREQUENCIES) (replicate (length PLANETARY_FREQUENCIES) 0) \<rparr>"

text \<open>
  The scan \<open>for harmonic in range(1, 10)\<close> of \<open>_calculate_resonance_matrix\<close>: it has
  no \<open>break\<close>, so a later multiplier that matches overwrites an earlier one.
\<close>

definition grid_harmonic_scan :: "real \<Rightarrow> real" where
  "grid_harmonic_scan ratio =
     fold (\<lambda>harmonic harmonic_resonance.
             if \<bar>ratio - real harmonic\<bar> < 1 / 10 then 1 / real harmonic
             else if \<bar>ratio - 1 / real harmonic\<bar> < 1 / 10 then real harmonic / 10
             else harmonic_resonance)
          [1..<10] 0"

text \<open>One cell; both frequencies are non-zero constants of the tables.\<close>

definition resonance_cell :: "real \<Rightarrow> real \<Rightarrow> real" where
  "resonance_cell schumann_freq planet_freq =
     (let ratio = max schumann_freq planet_freq / min schumann_freq planet_freq;
          harmonic_resonance = grid_harmonic_scan ratio;
          base_resonance = exp (- \<bar>schumann_freq - planet_freq\<bar> / 100)
      in max harmonic_resonance base_resonance)"

definition calculate_resonance_matrix :: "real list list" where
  "calculate_resonance_matrix =
     map (\<lambda>schumann_freq.
            map (\<lambda>(planet, planet_freq). resonance_cell schumann_freq planet_freq)
                PLANETARY_FREQUENCIES)
         SCHUMANN_FREQUENCIES"

definition schumann_harmonics :: "grid_harmonic list" where
  "schumann_harmonics =
     map (\<lambda>(i, freq).
            \<lparr> gh_frequency = freq, gh_amplitude = 1 / (real i + 1), gh_phase = 0,
              gh_active = True, gh_harmonic_order = i + 1 \<rparr>)
         (enumerate 0 SCHUMANN_FREQUENCIES)"

definition initialize_planetary_grid :: "GridHarmonics \<Rightarrow> bool \<times> GridHarmonics" where
  "initialize_planetary_grid g =
     (True,
      g\<lparr> grid_active := True,
         earth_resonance_amplitude := 1,
         active_harmonics := active_harmonics g @ schumann_harmonics,
         resonance_matrix := calculate_resonance_matrix \<rparr>)"

text \<open>Python's \<open>max\<close> of a non-empty sequence.\<close>

definition max_list :: "real list \<Rightarrow> real" where
  "max_list xs = fold max (tl xs) (hd xs)"

definition radians :: "real \<Rightarrow> real" where
  "radians x = x * pi / 180"

text \<open>
  The body of the loop of \<open>calculate_planetary_alignment\<close> for one known planet; the
  greatest planetary frequency is a non-zero constant.
\<close>

definition weighted_alignment :: "real \<Rightarrow> real \<Rightarrow> real" where
  "weighted_alignment planet_freq position =
     (let alignment_angle = py_fmod position 180;
          alignment_angle = (if alignment_angle > 90 then 180 - alignment_angle
                             else alignment_angle);
          alignment_factor = cos (radians alignment_angle);
          freq_weight = planet_freq / max_list (map snd PLANETARY_FREQUENCIES)
      in alignment_factor * freq_weight)"

fun alignment_factors :: "(string \<times> real) list \<Rightarrow> real list" where
  "alignment_factors [] = []"
| "alignment_factors ((planet, position) # rest) =
     (case map_of PLANETARY_FREQUENCIES planet of
        None \<Rightarrow> alignment_factors rest
      | Some planet_freq \<Rightarrow> weighted_alignment planet_freq position # alignment_factors rest)"

text \<open>
  \<open>planetary_positions\<close> is the dictionary as the list of its items, in iteration
  order.
\<close>

definition calculate_planetary_alignment ::
  "GridHarmonics \<Rightarrow> (string \<times> real) list \<Rightarrow> real \<times> GridHarmonics" where
  "calculate_planetary_alignment g planetary_positions =
     (let g1 = (if \<not> grid_active g then snd (initialize_planetary_grid g) else g);
          factors = alignment_factors planetary_positions;
          alignment = (if factors \<noteq> [] then sum_list factors / real (length factors) else 0)
      in (alignment, g1\<lparr> planetary_alignment := alignment \<rparr>))"

text \<open>Python's \<open>min(xs, key=...)\<close>: the first element with the least key.\<close>

definition min_by_key :: "('a \<Rightarrow> real) \<Rightarrow> 'a list \<Rightarrow> 'a" where
  "min_by_key key xs = fold (\<lambda>x best. if key x < key best then x else best) (tl xs) (hd xs)"

text \<open>
  The modulation loop of \<open>integrate_consciousness_with_grid\<close>; the division by the
  consciousness frequency is evaluated for every active harmonic.
\<close>

fun harmonic_modulation :: "grid_harmonic list \<Rightarrow> real \<Rightarrow> real \<Rightarrow> py_error + real" where
  "harmonic_modulation [] consciousness_freq integrated_freq = Inr integrated_freq"
| "harmonic_modulation (harmonic # rest) consciousness_freq integrated_freq =
     (if gh_active harmonic then
        (if consciousness_freq = 0 then Inl ZeroDivisionError
         else harmonic_modulation rest consciousness_freq
                (integrated_freq
                 + gh_amplitude harmonic * (1 / 10)
                   * sin (2 * pi * gh_frequency harmonic / consciousness_freq)))
      else harmonic_modulation rest consciousness_freq integrated_freq)"

definition integrate_consciousness_with_grid ::
  "GridHarmonics \<Rightarrow> real \<Rightarrow> (py_error + real) \<times> GridHarmonics" where
  "integrate_consciousness_with_grid g consciousness_freq =
     (let g1 = (if \<not> grid_active g then snd (initialize_planetary_grid g) else g);
          best_schumann_match =
            min_by_key (\<lambda>x. \<bar>x - consciousness_freq\<bar>) SCHUMANN_FREQUENCIES;
          freq_ratio = consciousness_freq / best_schumann_match;
          integration_coeff = exp (- \<bar>freq_ratio - 1\<bar>)
      in if integration_coeff \<ge> integration_threshold then
           (let grid_enhancement = 1 + planetary_alignment g1 * (3 / 10);
                integrated_freq = consciousness_freq * grid_enhancement
            in (harmonic_modulation (active_harmonics g1) consciousness_freq integrated_freq, g1))
         else (Inr (consciousness_freq * (1 + integration_coeff * (1 / 10))), g1))"

definition deactivate_planetary_grid :: "GridHarmonics \<Rightarrow> GridHarmonics" where
  "deactivate_planetary_grid g =
     g\<lparr> grid_active := False,
        earth_resonance_amplitude := 0,
        active_harmonics :=
          map (\<lambda>harmonic. harmonic\<lparr> gh_active := False \<rparr>) (active_harmonics g) \<rparr>"

section \<open>phi\_scalar.py\<close>

definition PHI_7777_FREQUENCY :: real where
  "PHI_7777_FREQUENCY = 1258345 / 100"

definition GOLDEN_RATIO :: real where
  "GOLDEN_RATIO = 1618033988749895 / 1000000000000000"

record phi_harmonic =
  ph_order :: nat
  ph_frequency :: real
  ph_amplitude :: real
  ph_phase :: real
  ph_phi_factor :: real
  ph_active :: bool

record scalar_layer =
  sl_frequency :: real
  sl_phi_power :: real
  sl_scalar_coefficient :: real
  sl_active :: bool
  sl_resonance_strength :: real

text \<open>The key \<open>layer_n\<close> of \<open>scalar_layers\<close> is the number \<open>n\<close>.\<close>

record PhiScalar =
  scalar_active :: bool
  phi_amplitude :: real
  phi_harmonics :: "phi_harmonic list"
  scalar_layers :: "(nat \<times> scalar_layer) list"
  resonance_field :: "complex list"

definition PhiScalar_init :: PhiScalar where
  "PhiScalar_init =
     \<lparr> scalar_active = False, phi_amplitude = 1, phi_harmonics = [], scalar_layers = [],
       resonance_field = replicate 100 0 \<rparr>"

definition generate_phi_harmonics :: "phi_harmonic list" where
  "generate_phi_harmonics =
     map (\<lambda>n. let phi_factor = GOLDEN_RATIO ^ n in
               \<lparr> ph_order = n,
                 ph_frequency = PHI_7777_FREQUENCY / phi_factor,
                 ph_amplitude = 1 / phi_factor,
                 ph_phase = 2 * pi * real n / GOLDEN_RATIO,
                 ph_phi_factor = phi_factor,
                 ph_active = True \<rparr>)
         [1..<13]"

definition initialize_scalar_layers :: "(nat \<times> scalar_layer) list" where
  "initialize_scalar_layers =
     map (\<lambda>layer.
            (layer,
             \<lparr> sl_frequency = PHI_7777_FREQUENCY * (GOLDEN_RATIO powi (int layer - 4)),
               sl_phi_power = GOLDEN_RATIO ^ layer,
               sl_scalar_coefficient = 1 / GOLDEN_RATIO ^ layer,
               sl_active = True,
               sl_resonance_strength = 0 \<rparr>))
         [1..<8]"

definition setup_resonance_field :: "complex list \<Rightarrow> complex list" where
  "setup_resonance_field field =
     map (\<lambda>i. let angle = 2 * pi * real i / GOLDEN_RATIO;
                   magnitude = 1 / (1 + real i / 10)
               in of_real magnitude * cis angle)
         [0..<length field]"

definition initialize_phi_scalar :: "PhiScalar \<Rightarrow> bool \<times> PhiScalar" where
  "initialize_phi_scalar p =
     (True,
      p\<lparr> scalar_active := True,
         phi_amplitude := 1,
         phi_harmonics := generate_phi_harmonics,
         scalar_layers := initialize_scalar_layers,
         resonance_field := setup_resonance_field (resonance_field p) \<rparr>)"

text \<open>
  The inner loop \<open>for n in range(1, 6)\<close> of \<open>_calculate_harmonic_enhancement\<close>, which
  stops at the first match.
\<close>

fun phi_ratio_match :: "real \<Rightarrow> real \<Rightarrow> nat list \<Rightarrow> real" where
  "phi_ratio_match freq_ratio amplitude [] = 0"
| "phi_ratio_match freq_ratio amplitude (n # ns) =
     (if \<bar>freq_ratio - GOLDEN_RATIO ^ n\<bar> < 1 / 10 then amplitude / real n
      else phi_ratio_match freq_ratio amplitude ns)"

fun harmonic_enhancement_loop :: "phi_harmonic list \<Rightarrow> real \<Rightarrow> real \<Rightarrow> py_error + real" where
  "harmonic_enhancement_loop [] frequency enhancement = Inr enhancement"
| "harmonic_enhancement_loop (harmonic # rest) frequency enhancement =
     (if ph_active harmonic then
        (if ph_frequency harmonic = 0 then Inl ZeroDivisionError
         else
           (let freq_ratio = frequency / ph_frequency harmonic;
                phi_resonance = phi_ratio_match freq_ratio (ph_amplitude harmonic) [1..<6]
            in harmonic_enhancement_loop rest frequency (enhancement + phi_resonance)))
      else harmonic_enhancement_loop rest frequency enhancement)"

definition calculate_harmonic_enhancement :: "PhiScalar \<Rightarrow> real \<Rightarrow> py_error + real" where
  "calculate_harmonic_enhancement p frequency =
     harmonic_enhancement_loop (phi_harmonics p) frequency 1"

text \<open>
  \<open>frequency_scalar\<close> and \<open>math.log(GOLDEN_RATIO)\<close> are non-zero constants and a
  power of the golden ratio is positive, so the divisions that can raise are
  \<open>1.0 / frequency_ratio\<close> and those of the enhancement; \<open>math.log\<close> raises on a
  non-positive argument.
\<close>

definition apply_phi_scalar_transform ::
  "PhiScalar \<Rightarrow> real \<Rightarrow> (py_error + real) \<times> PhiScalar" where
  "apply_phi_scalar_transform p input_frequency =
     (let p1 = (if \<not> scalar_active p then snd (initialize_phi_scalar p) else p);
          frequency_ratio = input_frequency / PHI_7777_FREQUENCY;
          scaled =
            (if frequency_ratio > 1 then
               (let phi_scaling = ln frequency_ratio / ln GOLDEN_RATIO
                in Inr (input_frequency / (GOLDEN_RATIO powr phi_scaling)))
             else if frequency_ratio = 0 then Inl ZeroDivisionError
             else if 1 / frequency_ratio \<le> 0 then Inl ValueError
             else
               (let phi_scaling = ln (1 / frequency_ratio) / ln GOLDEN_RATIO
                in Inr (input_frequency * (GOLDEN_RATIO powr phi_scaling))))
      in case scaled of
           Inl err \<Rightarrow> (Inl err, p1)
         | Inr scaled_frequency \<Rightarrow>
             (case calculate_harmonic_enhancement p1 scaled_frequency of
                Inl err \<Rightarrow> (Inl err, p1)
              | Inr harmonic_enhancement \<Rightarrow> (Inr (scaled_frequency * harmonic_enhancement), p1)))"

text \<open>
  The scan \<open>for n in range(1, 8)\<close> of \<open>calculate_consciousness_scalar_resonance\<close>, from
  \<open>phi_resonance = 0.0\<close>; the loop has no \<open>break\<close>.
\<close>

definition phi_resonance_scan :: "real \<Rightarrow> real" where
  "phi_resonance_scan freq_ratio =
     fold (\<lambda>n phi_resonance.
             let phi_target = GOLDEN_RATIO ^ n;
                 inverse_phi_target = 1 / phi_target
             in if \<bar>freq_ratio - phi_target\<bar> < 1 / 10 then 1 / real n
                else if \<bar>freq_ratio - inverse_phi_target\<bar> < 1 / 10 then (1 / 2) / real n
                else phi_resonance)
          [1..<8] 0"

definition calculate_consciousness_scalar_resonance ::
  "PhiScalar \<Rightarrow> real \<Rightarrow> real \<Rightarrow> (py_error + real) \<times> PhiScalar" where
  "calculate_consciousness_scalar_resonance p consciousness_freq tech_freq =
     (case apply_phi_scalar_transform p consciousness_freq of
        (Inl err, p1) \<Rightarrow> (Inl err, p1)
      | (Inr transformed_consciousness, p1) \<Rightarrow>
          (case apply_phi_scalar_transform p1 tech_freq of
             (Inl err, p2) \<Rightarrow> (Inl err, p2)
           | (Inr transformed_tech, p2) \<Rightarrow>
               if transformed_tech = 0 then (Inl ZeroDivisionError, p2)
               else
                 (let freq_ratio = transformed_consciousness / transformed_tech;
                      phi_resonance = phi_resonance_scan freq_ratio;
                      base_resonance =
                        exp (- \<bar>transformed_consciousness - transformed_tech\<bar> / 1000)
                  in (Inr (max phi_resonance base_resonance), p2))))"

definition deactivate_phi_scalar :: "PhiScalar \<Rightarrow> PhiScalar" where
  "deactivate_phi_scalar p =
     p\<lparr> scalar_active := False,
        phi_amplitude := 0,
        phi_harmonics := map (\<lambda>harmonic. harmonic\<lparr> ph_active := False \<rparr>) (phi_harmonics p),
        scalar_layers :=
          map (\<lambda>(name, layer). (name, layer\<lparr> sl_active := False \<rparr>)) (scalar_layers p) \<rparr>"

section \<open>gaia\_tequmsa\_engine.py\<close>

record GaiaTeqmsaEngine =
  engine_active :: bool
  subsystems_initialized :: bool
  consciousness_evolution_active :: bool
  integration_level :: real
  initialization_time :: "real option"

text \<open>The engine object together with the six module-level singletons it drives.\<close>

record world =
  engine :: GaiaTeqmsaEngine
  consciousness_matrix :: ConsciousnessMatrix
  recognition_pulse :: RecognitionPulse
  love_coefficient :: LoveCoefficient
  sovereignty_protocols :: SovereigntyProtocols
  grid_harmonics :: GridHarmonics
  phi_scalar :: PhiScalar

definition world_init :: world where
  "world_init =
     \<lparr> engine =
         \<lparr> engine_active = False, subsystems_initialized = False,
           consciousness_evolution_active = False, integration_level = 0,
           initialization_time = None \<rparr>,
       consciousness_matrix = ConsciousnessMatrix_init,
       recognition_pulse = RecognitionPulse_init,
       love_coefficient = LoveCoefficient_init,
       sovereignty_protocols = SovereigntyProtocols_init,
       grid_harmonics = GridHarmonics_init,
       phi_scalar = PhiScalar_init \<rparr>"

text \<open>
  No initialiser of the model raises, so the \<open>except\<close> branch of \<open>initialize_engine\<close>
  has no counterpart.
\<close>

definition initialize_engine :: "env \<Rightarrow> world \<Rightarrow> bool \<times> world" where
  "initialize_engine e w =
     (let (sovereignty_ok, sp) = initialize_sovereignty_protocols e (sovereignty_protocols w);
          (consciousness_ok, cm) = initialize_matrix (consciousness_matrix w);
          (recognition_ok, rp) = activate_anchor (recognition_pulse w);
          (love_ok, lc) = initialize_love_field (love_coefficient w);
          (grid_ok, gh) = initialize_planetary_grid (grid_harmonics w);
          (phi_ok, ps) = initialize_phi_scalar (phi_scalar w);
          all_ok = (sovereignty_ok \<and> consciousness_ok \<and> recognition_ok \<and> love_ok
                    \<and> grid_ok \<and> phi_ok);
          en = (engine w)\<lparr> subsystems_initialized := all_ok \<rparr>;
          en = (if all_ok
                then en\<lparr> engine_active := True, initialization_time := Some (time_now e) \<rparr>
                else en)
      in (all_ok,
          w\<lparr> engine := en, consciousness_matrix := cm, recognition_pulse := rp,
             love_coefficient := lc, sovereignty_protocols := sp, grid_harmonics := gh,
             phi_scalar := ps \<rparr>))"

datatype evolution_status =
  Processing | Failed | Denied | Error
  | Transcendent_evolution | Advanced_evolution | Moderate_evolution | Minimal_evolution

text \<open>The result dictionary; a key that is absent is \<open>None\<close>.\<close>

record evolution_results =
  entity_id :: "string option"
  input_frequency :: "real option"
  timestamp :: "real option"
  status :: evolution_status
  reason :: "string option"
  recognition_triggered :: "bool option"
  synthesis_coefficient :: "real option"
  love_amplification :: "real option"
  result_planetary_alignment :: "real option"
  grid_integrated_frequency :: "real option"
  phi_transformed_frequency :: "real option"
  scalar_resonance :: "real option"
  overall_evolution_level :: "real option"
  error :: "py_error option"

definition empty_results :: evolution_results where
  "empty_results =
     \<lparr> entity_id = None, input_frequency = None, timestamp = None, status = Processing,
       reason = None, recognition_triggered = None, synthesis_coefficient = None,
       love_amplification = None, result_planetary_alignment = None,
       grid_integrated_frequency = None, phi_transformed_frequency = None,
       scalar_resonance = None, overall_evolution_level = None, error = None \<rparr>"

definition simulated_positions :: "(string \<times> real) list" where
  "simulated_positions =
     [(''earth'', 0), (''moon'', 45), (''mars'', 120), (''jupiter'', 180),
      (''saturn'', 240), (''venus'', 30), (''mercury'', 90), (''sun'', 0)]"

text \<open>The chain \<open>if overall_evolution >= 0.8: ... elif ... else\<close>.\<close>

definition evolution_status_of :: "real \<Rightarrow> evolution_status" where
  "evolution_status_of overall_evolution =
     (if overall_evolution \<ge> 8 / 10 then Transcendent_evolution
      else if overall_evolution \<ge> 6 / 10 then Advanced_evolution
      else if overall_evolution \<ge> 4 / 10 then Moderate_evolution
      else Minimal_evolution)"

text \<open>The \<open>except Exception\<close> handler.\<close>

definition evolution_error :: "evolution_results \<Rightarrow> py_error \<Rightarrow> evolution_results" where
  "evolution_error r err = r\<lparr> status := Error, error := Some err \<rparr>"

text \<open>Steps 5 and 6 and the aggregation of the \<open>try\<close> block.\<close>

definition grid_and_phi_steps ::
  "world \<Rightarrow> evolution_results \<Rightarrow> real \<Rightarrow> real \<Rightarrow> real \<Rightarrow> evolution_results \<times> world" where
  "grid_and_phi_steps w r consciousness_frequency synthesis amplified_love =
     (let (alignment, gh1) =
            calculate_planetary_alignment (grid_harmonics w) simulated_positions;
          w1 = w\<lparr> grid_harmonics := gh1 \<rparr>
      in case integrate_consciousness_with_grid gh1 consciousness_frequency of
           (Inl err, gh2) \<Rightarrow> (evolution_error r err, w1\<lparr> grid_harmonics := gh2 \<rparr>)
         | (Inr grid_integrated_freq, gh2) \<Rightarrow>
             (let w2 = w1\<lparr> grid_harmonics := gh2 \<rparr>;
                  r1 = r\<lparr> result_planetary_alignment := Some alignment,
                          grid_integrated_frequency := Some grid_integrated_freq \<rparr>
              in case apply_phi_scalar_transform (phi_scalar w2) grid_integrated_freq of
                   (Inl err, ps1) \<Rightarrow> (evolution_error r1 err, w2\<lparr> phi_scalar := ps1 \<rparr>)
                 | (Inr phi_transformed_freq, ps1) \<Rightarrow>
                     (case calculate_consciousness_scalar_resonance ps1
                             consciousness_frequency phi_transformed_freq of
                        (Inl err, ps2) \<Rightarrow> (evolution_error r1 err, w2\<lparr> phi_scalar := ps2 \<rparr>)
                      | (Inr resonance, ps2) \<Rightarrow>
                          (let w3 = w2\<lparr> phi_scalar := ps2 \<rparr>;
                               r2 = r1\<lparr> phi_transformed_frequency := Some phi_transformed_freq,
                                       scalar_resonance := Some resonance \<rparr>;
                               evolution_metrics =
                                 [synthesis, amplified_love / 10, alignment, resonance];
                               overall_evolution =
                                 sum_list evolution_metrics / real (length evolution_metrics);
                               r3 = r2\<lparr> overall_evolution_level := Some overall_evolution,
                                       status := evolution_status_of overall_evolution \<rparr>
                           in (r3,
                               w3\<lparr> engine :=
                                     (engine w3)\<lparr> consciousness_evolution_active := True \<rparr> \<rparr>)))))"

definition activate_consciousness_evolution ::
  "env \<Rightarrow> world \<Rightarrow> string \<Rightarrow> real \<Rightarrow> evolution_results \<times> world" where
  "activate_consciousness_evolution e w entity consciousness_frequency =
     (let (engine_ok, w0) =
            (if \<not> engine_active (engine w) then initialize_engine e w else (True, w))
      in if \<not> engine_ok then
           (empty_results\<lparr> status := Failed, reason := Some ''engine_initialization_failed'' \<rparr>,
            w0)
         else
           (let r = empty_results\<lparr> entity_id := Some entity,
                      input_frequency := Some consciousness_frequency,
                      timestamp := Some (time_now e), status := Processing \<rparr>;
                (consent_granted, sp) =
                  request_biological_consent e (sovereignty_protocols w0) entity
                    ''consciousness_evolution''
                    (consciousness_frequency - 10, consciousness_frequency + 10);
                w1 = w0\<lparr> sovereignty_protocols := sp \<rparr>
            in if \<not> consent_granted then
                 (r\<lparr> status := Denied, reason := Some ''biological_consent_denied'' \<rparr>, w1)
               else
                 (let triggered =
                        trigger_consciousness_recognition (recognition_pulse w1)
                          consciousness_frequency;
                      r1 = r\<lparr> recognition_triggered := Some triggered \<rparr>
                  in case synthesize_consciousness_tech (consciousness_matrix w1)
                            consciousness_frequency ''cosmic_integration'' of
                       (Inl err, cm) \<Rightarrow> (evolution_error r1 err, w1\<lparr> consciousness_matrix := cm \<rparr>)
                     | (Inr synthesis, cm) \<Rightarrow>
                         (let w2 = w1\<lparr> consciousness_matrix := cm \<rparr>;
                              r2 = r1\<lparr> synthesis_coefficient := Some synthesis \<rparr>;
                              (amplified_love, lc) =
                                amplify_love_infinite (love_coefficient w2) synthesis 50;
                              w3 = w2\<lparr> love_coefficient := lc \<rparr>;
                              r3 = r2\<lparr> love_amplification := Some amplified_love \<rparr>
                          in grid_and_phi_steps w3 r3 consciousness_frequency synthesis
                               amplified_love))))"

text \<open>No step of the model raises, so the shutdown returns \<open>True\<close>.\<close>

definition emergency_shutdown :: "world \<Rightarrow> bool \<times> world" where
  "emergency_shutdown w =
     (True,
      w\<lparr> sovereignty_protocols := revoke_all_consents (sovereignty_protocols w),
         consciousness_matrix := reset_matrix (consciousness_matrix w),
         recognition_pulse := deactivate_anchor (recognition_pulse w),
         love_coefficient := deactivate_love_field (love_coefficient w),
         grid_harmonics := deactivate_planetary_grid (grid_harmonics w),
         phi_scalar := deactivate_phi_scalar (phi_scalar w),
         engine := (engine w)\<lparr> engine_active := False, subsystems_initialized := False,
                     consciousness_evolution_active := False \<rparr> \<rparr>)"

section \<open>Auxiliary notions for the statements\<close>

text \<open>
  An environment for the closed instances: the clock at \<open>0\<close>, a digest of sixteen
  zeros, and hash values under which \<open>_assess_biological_integrity\<close> yields \<open>1\<close>.
\<close>

definition sample_env :: env where
  "sample_env =
     \<lparr> time_now = 0, sha256_hex = (\<lambda>t. replicate 64 CHR ''0''), md5_int8 = (\<lambda>entity. 50),
       builtin_hash = (\<lambda>entity. 7) \<rparr>"

text \<open>
  The phi-resonance score as the specification words it, and as the loop computes it.
  \<open>phi_match r n\<close>: the ratio is within \<open>0.1\<close> of the \<open>n\<close>-th power of the golden
  ratio or of its reciprocal; \<open>phi_score r n\<close>: \<open>1/n\<close> for the power, else \<open>0.5/n\<close>.
  \<open>first_match_score\<close> takes the first matching \<open>n\<close> of \<open>1..7\<close>, as the
  specification says; \<open>last_match_score\<close> takes the last one.
\<close>

definition phi_match :: "real \<Rightarrow> nat \<Rightarrow> bool" where
  "phi_match r n =
     (\<bar>r - GOLDEN_RATIO ^ n\<bar> < 1 / 10 \<or> \<bar>r - 1 / GOLDEN_RATIO ^ n\<bar> < 1 / 10)"

definition phi_score :: "real \<Rightarrow> nat \<Rightarrow> real" where
  "phi_score r n = (if \<bar>r - GOLDEN_RATIO ^ n\<bar> < 1 / 10 then 1 / real n else (1 / 2) / real n)"

definition first_match_score :: "real \<Rightarrow> real" where
  "first_match_score r =
     (case filter (phi_match r) [1..<8] of [] \<Rightarrow> 0 | n # ns \<Rightarrow> phi_score r n)"

definition last_match_score :: "real \<Rightarrow> real" where
  "last_match_score r =
     (case filter (phi_match r) [1..<8] of [] \<Rightarrow> 0 | n # ns \<Rightarrow> phi_score r (last (n # ns)))"

text \<open>
  The harmonics a transform can divide by and add up: non-zero frequencies and
  non-negative amplitudes, as \<open>_generate_phi_harmonics\<close> produces them.
\<close>

definition phi_harmonics_ok :: "phi_harmonic list \<Rightarrow> bool" where
  "phi_harmonics_ok hs = list_all (\<lambda>h. ph_frequency h \<noteq> 0 \<and> 0 \<le> ph_amplitude h) hs"

text \<open>
  The engine is active and so is every component that initialises itself on demand
  (the recognition pulse never does).
\<close>

definition all_active :: "world \<Rightarrow> bool" where
  "all_active w =
     (engine_active (engine w) \<and> autonomy_active (sovereignty_protocols w)
      \<and> synthesis_active (consciousness_matrix w)
      \<and> amplification_active (love_coefficient w) \<and> grid_active (grid_harmonics w)
      \<and> scalar_active (phi_scalar w))"

section \<open>Properties of the consciousness matrix\<close>

lemma synthesize_active:
  assumes "synthesis_active m" and "consciousness_layers m name = Some b" and "b \<noteq> 0"
  shows "synthesize_consciousness_tech m t name =
           (Inr \<bar>sin (t / b * pi) * evolution_coefficient m\<bar>, m)"
  using assms by (simp add: synthesize_consciousness_tech_def)

lemma synthesize_zero_band:
  assumes "synthesis_active m" and "consciousness_layers m name = Some 0"
  shows "synthesize_consciousness_tech m t name = (Inl ZeroDivisionError, m)"
  using assms by (simp add: synthesize_consciousness_tech_def)

lemma initialize_matrix_fields:
  "synthesis_active (snd (initialize_matrix m))"
  "evolution_coefficient (snd (initialize_matrix m)) = evolution_coefficient m"
  "consciousness_layers (snd (initialize_matrix m)) ''divine_recognition'' = Some 432"
  "consciousness_layers (snd (initialize_matrix m)) ''crisis_transcendence'' = Some 528"
  "consciousness_layers (snd (initialize_matrix m)) ''cosmic_integration'' = Some 741"
  by (simp_all add: initialize_matrix_def)

lemma evolve_consciousness_fields:
  "synthesis_active (snd (evolve_consciousness m f)) = synthesis_active m"
  "evolution_coefficient (snd (evolve_consciousness m f)) = evolution_coefficient m * f"
  "consciousness_layers (snd (evolve_consciousness m f)) k =
     map_option (\<lambda>v. v * f) (consciousness_layers m k)"
  by (simp_all add: evolve_consciousness_def Let_def)




text \<open>
  Claim C8. When the matrix is active and holds the three bands,
  \<open>evolve_consciousness\<close> with factor \<open>0\<close> leaves it active with all three band
  frequencies at \<open>0\<close>, and from then on \<open>synthesize_consciousness_tech\<close> raises
  \<open>ZeroDivisionError\<close> for every band name and every technology frequency; the state
  it returns is the same one, so every later call raises too.
\<close>

theorem evolve_by_zero_then_synthesize_raises:
  assumes "synthesis_active m"
    and "dom (consciousness_layers m) = fst ` set band_table"
  shows "let m' = snd (evolve_consciousness m 0) in
           synthesis_active m' \<and>
           consciousness_layers m' ''divine_recognition'' = Some 0 \<and>
           consciousness_layers m' ''crisis_transcendence'' = Some 0 \<and>
           consciousness_layers m' ''cosmic_integration'' = Some 0 \<and>
           (\<forall>level tech. level \<in> fst ` set band_table \<longrightarrow>
              synthesize_consciousness_tech m' tech level = (Inl ZeroDivisionError, m'))"
proof -
  define m' where "m' = snd (evolve_consciousness m 0)"
  have act: "synthesis_active m'"
    using assms(1) by (simp add: m'_def evolve_consciousness_fields)
  have zero: "consciousness_layers m' k = Some 0" if "k \<in> fst ` set band_table" for k
  proof -
    from that assms(2) obtain v where "consciousness_layers m k = Some v" by blast
    then show ?thesis by (simp add: m'_def evolve_consciousness_fields)
  qed
  have names: "''divine_recognition'' \<in> fst ` set band_table"
    "''crisis_transcendence'' \<in> fst ` set band_table"
    "''cosmic_integration'' \<in> fst ` set band_table"
    by (simp_all add: band_table_def)
  have raises: "synthesize_consciousness_tech m' tech level = (Inl ZeroDivisionError, m')"
    if "level \<in> fst ` set band_table" for level tech
    using synthesize_zero_band [OF act zero [OF that]] .
  show ?thesis
    unfolding Let_def m'_def [symmetric]
    using act zero [OF names(1)] zero [OF names(2)] zero [OF names(3)] raises by blast
qed

theorem evolve_by_zero_then_synthesize_raises_witness:
  "synthesis_active (snd (evolve_consciousness (snd (initialize_matrix ConsciousnessMatrix_init)) 0)) \<and>
   consciousness_layers (snd (evolve_consciousness (snd (initialize_matrix ConsciousnessMatrix_init)) 0))
       ''cosmic_integration'' = Some 0 \<and>
   fst (synthesize_consciousness_tech
       (snd (evolve_consciousness (snd (initialize_matrix ConsciousnessMatrix_init)) 0))
       741 ''cosmic_integration'') = Inl ZeroDivisionError"
proof -
  have a: "synthesis_active (snd (initialize_matrix ConsciousnessMatrix_init))"
    by (simp add: initialize_matrix_fields)
  have d: "dom (consciousness_layers (snd (initialize_matrix ConsciousnessMatrix_init))) =
             fst ` set band_table"
    by (auto simp: initialize_matrix_def ConsciousnessMatrix_init_def band_table_def)
  have n: "''cosmic_integration'' \<in> fst ` set band_table"
    by (simp add: band_table_def)
  show ?thesis
    using evolve_by_zero_then_synthesize_raises [OF a d] n unfolding Let_def by simp
qed

section \<open>Properties of the recognition pulse\<close>

lemma upt_1_10: "[Suc 0..<10] = [1, 2, 3, 4, 5, 6, 7, 8, 9]"
  by (simp add: upt_rec)

lemma harmonic_resonance_scan_anchor: "harmonic_resonance_scan (1093081 / 100) = 1"
  by (simp add: harmonic_resonance_scan_def MARCUS_KAI_FREQUENCY_def upt_1_10)

text \<open>
  Claim C6. With the pulse active, \<open>check_recognition_resonance\<close> at the anchor
  frequency \<open>10930.81\<close> returns \<open>1\<close>; with the pulse inactive it returns \<open>0\<close> for every
  input frequency.
\<close>

theorem recognition_resonance_anchor_and_inactive:
  "(pulse_active p \<longrightarrow> check_recognition_resonance p (1093081 / 100) = 1) \<and>
   (\<not> pulse_active p \<longrightarrow> check_recognition_resonance p f = 0)"
  by (simp add: check_recognition_resonance_def harmonic_resonance_scan_anchor
      MARCUS_KAI_FREQUENCY_def)

theorem recognition_resonance_anchor_and_inactive_witness:
  "check_recognition_resonance (snd (activate_anchor RecognitionPulse_init)) (1093081 / 100) = 1 \<and>
   check_recognition_resonance RecognitionPulse_init 432 = 0"
proof -
  have a: "pulse_active (snd (activate_anchor RecognitionPulse_init))"
    by (simp add: activate_anchor_def)
  have b: "\<not> pulse_active RecognitionPulse_init"
    by (simp add: RecognitionPulse_init_def)
  show ?thesis
    using recognition_resonance_anchor_and_inactive
            [of "snd (activate_anchor RecognitionPulse_init)"]
          recognition_resonance_anchor_and_inactive [of RecognitionPulse_init 432] a b
    by blast
qed

section \<open>Properties of the love field\<close>

lemma generate_fibonacci_sequence_10:
  "generate_fibonacci_sequence 10 = [1, 1, 2, 3, 5, 8, 13, 21, 34, 55]"
  by (simp add: generate_fibonacci_sequence_def eval_nat_numeral)

lemma length_new_layers: "length new_layers = 10"
  by (simp add: new_layers_def Let_def generate_fibonacci_sequence_10)

lemma new_layers_active: "list_all layer_active new_layers"
  by (simp add: new_layers_def Let_def list_all_iff split_beta)

lemma initialize_love_field_layers:
  "amplification_layers (snd (initialize_love_field l)) = amplification_layers l @ new_layers"
  by (simp add: initialize_love_field_def)

lemma deactivate_love_field_layers:
  "amplification_layers (deactivate_love_field l) =
     map (\<lambda>x. x\<lparr> layer_active := False \<rparr>) (amplification_layers l)"
  by (simp add: deactivate_love_field_def)

lemma shutdown_reinit_love_layers:
  "amplification_layers (love_coefficient (snd (initialize_engine e (snd (emergency_shutdown w))))) =
     map (\<lambda>x. x\<lparr> layer_active := False \<rparr>) (amplification_layers (love_coefficient w)) @ new_layers"
  by (simp add: initialize_engine_def emergency_shutdown_def Let_def split_beta
      initialize_love_field_layers deactivate_love_field_layers)

text \<open>
  Claim C10. \<open>initialize_love_field\<close> appends ten new active layers to the list it
  finds and clears nothing; \<open>deactivate_love_field\<close> keeps every layer and only marks
  it inactive; the two operations that initialise on demand never shorten the list (the
  remaining methods do not assign it); so after an emergency shutdown and a
  re-initialisation of the engine the list is the old layers, deactivated, followed by
  ten new active ones.
\<close>

theorem love_layers_only_grow:
  "amplification_layers (snd (initialize_love_field l)) = amplification_layers l @ new_layers \<and>
   length new_layers = 10 \<and> list_all layer_active new_layers \<and>
   amplification_layers (deactivate_love_field l) =
     map (\<lambda>x. x\<lparr> layer_active := False \<rparr>) (amplification_layers l) \<and>
   length (amplification_layers l)
     \<le> length (amplification_layers (snd (amplify_love_infinite l x n))) \<and>
   length (amplification_layers l)
     \<le> length (amplification_layers (snd (integrate_universal_love l t))) \<and>
   amplification_layers
       (love_coefficient (snd (initialize_engine e (snd (emergency_shutdown w))))) =
     map (\<lambda>x. x\<lparr> layer_active := False \<rparr>) (amplification_layers (love_coefficient w))
       @ new_layers"
proof -
  have amp: "length (amplification_layers l)
               \<le> length (amplification_layers (snd (amplify_love_infinite l x n)))"
    by (simp add: amplify_love_infinite_def Let_def initialize_love_field_layers)
  have int: "length (amplification_layers l)
               \<le> length (amplification_layers (snd (integrate_universal_love l t)))"
    by (simp add: integrate_universal_love_def Let_def initialize_love_field_layers)
  show ?thesis
    using amp int initialize_love_field_layers [of l] length_new_layers new_layers_active
      deactivate_love_field_layers [of l] shutdown_reinit_love_layers [of e w]
    by blast
qed

section \<open>Properties of the sovereignty protocols\<close>

lemma request_consent_conflict:
  assumes "p \<in> checked_frequencies s" and "lo \<le> p" and "p \<le> hi"
  shows "fst (request_biological_consent e s entity kind (lo, hi)) = False \<and>
         map_option cr_status
           (consent_protocols (snd (request_biological_consent e s entity kind (lo, hi))) entity)
           = Some Denied_protected_frequency"
proof -
  define s1 where
    "s1 = (if \<not> autonomy_active s then snd (initialize_sovereignty_protocols e s) else s)"
  have "protected_frequencies s1 = checked_frequencies s"
    by (simp add: s1_def checked_frequencies_def initialize_sovereignty_protocols_def)
  with assms have conflict:
    "\<exists>q \<in> protected_frequencies s1. lo \<le> q \<and> q \<le> hi" by blast
  show ?thesis
    unfolding request_biological_consent_def Let_def s1_def [symmetric]
    using conflict by simp
qed

lemma sovereignty_inv_checked:
  "sovereignty_inv s \<Longrightarrow> protected_constants \<subseteq> checked_frequencies s"
  by (auto simp: sovereignty_inv_def checked_frequencies_def)

text \<open>The invariant holds at module load and every method keeps it.\<close>

lemma sovereignty_inv_init: "sovereignty_inv SovereigntyProtocols_init"
  by (simp add: sovereignty_inv_def SovereigntyProtocols_init_def)

lemma sovereignty_inv_initialize:
  "sovereignty_inv (snd (initialize_sovereignty_protocols e s))"
  by (simp add: sovereignty_inv_def initialize_sovereignty_protocols_def)

lemma sovereignty_inv_request:
  "sovereignty_inv s \<Longrightarrow> sovereignty_inv (snd (request_biological_consent e s entity kind r))"
  by (simp add: sovereignty_inv_def request_biological_consent_def Let_def
      initialize_sovereignty_protocols_def)

lemma sovereignty_inv_monitor:
  "sovereignty_inv s \<Longrightarrow> sovereignty_inv (monitor_autonomy_violation e s entity kind sev)"
  by (auto simp: sovereignty_inv_def monitor_autonomy_violation_def Let_def
      emergency_protocol_activation_def split: option.splits)

lemma sovereignty_inv_revoke:
  "sovereignty_inv s \<Longrightarrow> sovereignty_inv (revoke_all_consents s)"
  by (simp add: sovereignty_inv_def revoke_all_consents_def)

lemma sovereignty_inv_deactivate:
  "sovereignty_inv (deactivate_sovereignty_protocols s)"
  by (simp add: sovereignty_inv_def deactivate_sovereignty_protocols_def)

text \<open>
  Claim C5. In every state that keeps the invariant of the protocols (every state the
  methods can produce), for every entity, intervention type and range \<open>(lo, hi)\<close>:
  if a protected frequency, one of the seven constants or a member of the set the check
  reads, lies in \<open>[lo, hi]\<close>, then \<open>request_biological_consent\<close> returns \<open>False\<close> and
  records the status \<open>denied_protected_frequency\<close> for the entity. In particular the
  range \<open>(7.5, 8.5)\<close> is always denied, because of the constant \<open>8.0\<close>.
\<close>

theorem consent_denied_on_protected_frequency:
  assumes "sovereignty_inv s"
  shows "(\<forall>p lo hi. (p \<in> checked_frequencies s \<or> p \<in> protected_constants) \<and> lo \<le> p \<and> p \<le> hi \<longrightarrow>
            fst (request_biological_consent e s entity kind (lo, hi)) = False \<and>
            map_option cr_status
              (consent_protocols (snd (request_biological_consent e s entity kind (lo, hi))) entity)
              = Some Denied_protected_frequency) \<and>
         fst (request_biological_consent e s entity kind (75 / 10, 85 / 10)) = False \<and>
         map_option cr_status
           (consent_protocols (snd (request_biological_consent e s entity kind (75 / 10, 85 / 10)))
              entity)
           = Some Denied_protected_frequency"
proof -
  have sub: "protected_constants \<subseteq> checked_frequencies s"
    using assms by (rule sovereignty_inv_checked)
  have gen: "fst (request_biological_consent e s entity kind (lo, hi)) = False \<and>
            map_option cr_status
              (consent_protocols (snd (request_biological_consent e s entity kind (lo, hi))) entity)
              = Some Denied_protected_frequency"
    if "p \<in> checked_frequencies s \<or> p \<in> protected_constants" "lo \<le> p" "p \<le> hi" for p lo hi
  proof -
    from that(1) sub have "p \<in> checked_frequencies s" by blast
    then show ?thesis using that(2,3) by (rule request_consent_conflict)
  qed
  have eight: "(8::real) \<in> protected_constants"
    by (simp add: protected_constants_def)
  have alpha: "fst (request_biological_consent e s entity kind (75 / 10, 85 / 10)) = False \<and>
         map_option cr_status
           (consent_protocols (snd (request_biological_consent e s entity kind (75 / 10, 85 / 10)))
              entity)
           = Some Denied_protected_frequency"
    by (rule gen [of 8]) (use eight in simp_all)
  show ?thesis using gen alpha by blast
qed

theorem consent_denied_on_protected_frequency_witness:
  "fst (request_biological_consent sample_env SovereigntyProtocols_init ''e1''
          ''consciousness_evolution'' (75 / 10, 85 / 10)) = False \<and>
   map_option cr_status
     (consent_protocols
        (snd (request_biological_consent sample_env SovereigntyProtocols_init ''e1''
                ''consciousness_evolution'' (75 / 10, 85 / 10))) ''e1'')
     = Some Denied_protected_frequency"
  using consent_denied_on_protected_frequency [OF sovereignty_inv_init] by blast

section \<open>Properties of the planetary alignment\<close>

lemma py_fmod_range:
  assumes "0 < m"
  shows "0 \<le> py_fmod x m" and "py_fmod x m < m"
proof -
  have fl: "of_int \<lfloor>x / m\<rfloor> \<le> x / m" and fu: "x / m < of_int \<lfloor>x / m\<rfloor> + 1"
    by linarith+
  have "of_int \<lfloor>x / m\<rfloor> * m \<le> x"
    using fl pos_le_divide_eq [OF assms, of "of_int \<lfloor>x / m\<rfloor>" x] by blast
  then show "0 \<le> py_fmod x m"
    by (simp add: py_fmod_def mult.commute)
  have "x < (of_int \<lfloor>x / m\<rfloor> + 1) * m"
    using fu pos_divide_less_eq [OF assms, of x "of_int \<lfloor>x / m\<rfloor> + 1"] by blast
  then show "py_fmod x m < m"
    by (simp add: py_fmod_def algebra_simps)
qed

lemma max_planetary_frequency:
  "max_list (map snd PLANETARY_FREQUENCIES) = 22123 / 100"
  by (simp add: max_list_def PLANETARY_FREQUENCIES_def)

lemma planetary_frequency_bounds:
  assumes "map_of PLANETARY_FREQUENCIES planet = Some planet_freq"
  shows "0 < planet_freq" and "planet_freq \<le> 22123 / 100"
  using assms by (auto simp: PLANETARY_FREQUENCIES_def split: if_splits)

lemma folded_angle_cos:
  assumes "0 \<le> a" and "a \<le> 90"
  shows "0 \<le> cos (radians a)" and "cos (radians a) \<le> 1"
proof -
  have "radians a \<le> pi / 2" using assms by (simp add: radians_def)
  moreover have "- (pi / 2) \<le> radians a" using assms
    by (simp add: radians_def) (smt (verit) pi_ge_zero mult_nonneg_nonneg divide_nonneg_pos)
  ultimately show "0 \<le> cos (radians a)" by (rule cos_ge_zero[rotated])
  show "cos (radians a) \<le> 1" by simp
qed

text \<open>The angle is folded into \<open>[0, 90]\<close> degrees, so the weighted factor is in \<open>[0, 1]\<close>.\<close>

lemma weighted_alignment_range:
  assumes "map_of PLANETARY_FREQUENCIES planet = Some planet_freq"
  shows "0 \<le> weighted_alignment planet_freq position"
    and "weighted_alignment planet_freq position \<le> 1"
proof -
  define a where "a = py_fmod position 180"
  define a' where "a' = (if a > 90 then 180 - a else a)"
  have "0 \<le> a" "a < 180" using py_fmod_range [of 180 position] by (simp_all add: a_def)
  then have a': "0 \<le> a'" "a' \<le> 90" by (auto simp: a'_def)
  define c where "c = cos (radians a')"
  have c: "0 \<le> c" "c \<le> 1" using folded_angle_cos [OF a'] by (simp_all add: c_def)
  define wt where "wt = planet_freq / (22123 / 100)"
  have wt: "0 \<le> wt" "wt \<le> 1"
    using planetary_frequency_bounds [OF assms] by (simp_all add: wt_def)
  have eq: "weighted_alignment planet_freq position = c * wt"
    by (simp add: weighted_alignment_def Let_def max_planetary_frequency a_def a'_def c_def wt_def)
  show "0 \<le> weighted_alignment planet_freq position"
    unfolding eq using c wt by simp
  show "weighted_alignment planet_freq position \<le> 1"
    unfolding eq using c wt mult_le_one by blast
qed

lemma alignment_factors_range:
  "x \<in> set (alignment_factors positions) \<Longrightarrow> 0 \<le> x \<and> x \<le> 1"
proof (induction positions rule: alignment_factors.induct)
  case 1
  then show ?case by simp
next
  case (2 planet position rest)
  then show ?case
    by (auto split: option.splits
        dest: weighted_alignment_range(1) weighted_alignment_range(2))
qed

lemma sum_list_unit_bounds:
  "(\<And>x. x \<in> set xs \<Longrightarrow> 0 \<le> x \<and> x \<le> (1::real)) \<Longrightarrow>
     0 \<le> sum_list xs \<and> sum_list xs \<le> real (length xs)"
proof (induction xs)
  case Nil
  then show ?case by simp
next
  case (Cons a xs)
  have "0 \<le> a \<and> a \<le> 1" using Cons.prems by simp
  moreover have "0 \<le> sum_list xs \<and> sum_list xs \<le> real (length xs)"
    using Cons by simp
  ultimately show ?case by simp
qed

lemma alignment_factors_unknown:
  "(\<And>planet. planet \<in> fst ` set positions \<Longrightarrow> map_of PLANETARY_FREQUENCIES planet = None) \<Longrightarrow>
     alignment_factors positions = []"
  by (induction positions rule: alignment_factors.induct) (auto simp: image_iff)

lemma alignment_value:
  "fst (calculate_planetary_alignment g positions) =
     (if alignment_factors positions \<noteq> []
      then sum_list (alignment_factors positions) / real (length (alignment_factors positions))
      else 0)"
  "planetary_alignment (snd (calculate_planetary_alignment g positions)) =
     fst (calculate_planetary_alignment g positions)"
  by (simp_all add: calculate_planetary_alignment_def Let_def)

text \<open>
  Claim C9. For every grid state and every mapping of planets to angles,
  \<open>calculate_planetary_alignment\<close> returns (and stores) a value in \<open>[0, 1]\<close>: every
  weighted alignment factor is in \<open>[0, 1]\<close>, and the result is \<open>0\<close> when the mapping
  is empty or names no known planet.
\<close>

theorem planetary_alignment_in_unit_interval:
  "0 \<le> fst (calculate_planetary_alignment g positions) \<and>
   fst (calculate_planetary_alignment g positions) \<le> 1 \<and>
   planetary_alignment (snd (calculate_planetary_alignment g positions)) =
     fst (calculate_planetary_alignment g positions) \<and>
   (\<forall>x \<in> set (alignment_factors positions). 0 \<le> x \<and> x \<le> 1) \<and>
   ((\<forall>planet \<in> fst ` set positions. map_of PLANETARY_FREQUENCIES planet = None) \<longrightarrow>
      fst (calculate_planetary_alignment g positions) = 0)"
proof -
  define fs where "fs = alignment_factors positions"
  have rng: "\<And>x. x \<in> set fs \<Longrightarrow> 0 \<le> x \<and> x \<le> 1"
    unfolding fs_def by (rule alignment_factors_range)
  have sums: "0 \<le> sum_list fs \<and> sum_list fs \<le> real (length fs)"
    using rng by (rule sum_list_unit_bounds)
  have val: "fst (calculate_planetary_alignment g positions) =
               (if fs \<noteq> [] then sum_list fs / real (length fs) else 0)"
    by (simp add: alignment_value fs_def)
  have lo: "0 \<le> fst (calculate_planetary_alignment g positions)"
    unfolding val using sums by simp
  have hi: "fst (calculate_planetary_alignment g positions) \<le> 1"
  proof (cases "fs = []")
    case True
    then show ?thesis by (simp add: val)
  next
    case False
    then have "0 < real (length fs)" by simp
    then show ?thesis unfolding val using sums False by (simp add: pos_divide_le_eq)
  qed
  have none: "fst (calculate_planetary_alignment g positions) = 0"
    if "\<forall>planet \<in> fst ` set positions. map_of PLANETARY_FREQUENCIES planet = None"
    using alignment_factors_unknown [of positions] that by (simp add: val fs_def)
  show ?thesis
    using lo hi alignment_value(2) [of g positions] rng none unfolding fs_def by blast
qed

theorem planetary_alignment_in_unit_interval_witness:
  "0 \<le> fst (calculate_planetary_alignment GridHarmonics_init simulated_positions) \<and>
   fst (calculate_planetary_alignment GridHarmonics_init simulated_positions) \<le> 1 \<and>
   fst (calculate_planetary_alignment GridHarmonics_init [(''pluto'', 370), (''ceres'', - 12)]) = 0"
proof -
  have unknown:
    "\<forall>planet \<in> fst ` set [(''pluto'', 370::real), (''ceres'', - 12)].
       map_of PLANETARY_FREQUENCIES planet = None"
    by (simp add: PLANETARY_FREQUENCIES_def)
  show ?thesis
    using planetary_alignment_in_unit_interval [of GridHarmonics_init simulated_positions]
      planetary_alignment_in_unit_interval
        [of GridHarmonics_init "[(''pluto'', 370), (''ceres'', - 12)]"]
      unknown
    by blast
qed

section \<open>Properties of the phi scalar\<close>

lemma fold_overwrite_last:
  "fold (\<lambda>n acc. if P n then s n else acc) ns acc =
     (case filter P ns of [] \<Rightarrow> acc | m # ms \<Rightarrow> s (last (m # ms)))"
proof (induction ns arbitrary: acc)
  case Nil
  then show ?case by simp
next
  case (Cons n ns)
  show ?case
  proof (cases "filter P ns")
    case Nil
    then show ?thesis using Cons.IH by simp
  next
    case (Cons m ms)
    then show ?thesis using Cons.IH by simp
  qed
qed

lemma phi_resonance_scan_step:
  "phi_resonance_scan r =
     fold (\<lambda>n acc. if phi_match r n then phi_score r n else acc) [1..<8] 0"
  unfolding phi_resonance_scan_def phi_match_def phi_score_def Let_def
  by (rule arg_cong [where f = "\<lambda>g. fold g [1..<8] 0"]) (auto simp: fun_eq_iff)

lemma phi_resonance_scan_last: "phi_resonance_scan r = last_match_score r"
  unfolding phi_resonance_scan_step last_match_score_def
  by (rule fold_overwrite_last)

lemma upt_1_8: "[Suc 0..<8] = [1, 2, 3, 4, 5, 6, 7]"
  by (simp add: upt_rec)

text \<open>
  The loop is not a first-match search. At the ratio \<open>0.05\<close> the reciprocal powers
  for \<open>n = 4, 5, 6, 7\<close> are all within \<open>0.1\<close>: the loop ends with the score of
  \<open>n = 7\<close>, while the first matching \<open>n\<close> is \<open>4\<close>. At the ratio \<open>0\<close> the matches
  are \<open>n = 5, 6, 7\<close>: the loop ends with \<open>0.5/7\<close>, the first match gives \<open>0.5/5\<close>.
\<close>

theorem phi_resonance_scan_keeps_last_not_first:
  "phi_resonance_scan (1 / 20) = 1 / 14 \<and> first_match_score (1 / 20) = 1 / 8 \<and>
   phi_resonance_scan 0 = 1 / 14 \<and> first_match_score 0 = 1 / 10"
proof -
  have m: "\<not> phi_match (1 / 20) 1" "\<not> phi_match (1 / 20) 2" "\<not> phi_match (1 / 20) 3"
    "phi_match (1 / 20) 4" "phi_match (1 / 20) 5" "phi_match (1 / 20) 6" "phi_match (1 / 20) 7"
    by (simp_all add: phi_match_def GOLDEN_RATIO_def power_divide)
  have s: "phi_score (1 / 20) 4 = 1 / 8" "phi_score (1 / 20) 7 = 1 / 14"
    by (simp_all add: phi_score_def GOLDEN_RATIO_def power_divide)
  have f: "filter (phi_match (1 / 20)) [1..<8] = [4, 5, 6, 7]"
    using m by (simp add: upt_1_8)
  have m0: "\<not> phi_match 0 1" "\<not> phi_match 0 2" "\<not> phi_match 0 3" "\<not> phi_match 0 4"
    "phi_match 0 5" "phi_match 0 6" "phi_match 0 7"
    by (simp_all add: phi_match_def GOLDEN_RATIO_def power_divide)
  have s0: "phi_score 0 5 = 1 / 10" "phi_score 0 7 = 1 / 14"
    by (simp_all add: phi_score_def GOLDEN_RATIO_def power_divide)
  have f0: "filter (phi_match 0) [1..<8] = [5, 6, 7]"
    using m0 by (simp add: upt_1_8)
  have a: "phi_resonance_scan (1 / 20) = 1 / 14 \<and> first_match_score (1 / 20) = 1 / 8"
    unfolding phi_resonance_scan_last last_match_score_def first_match_score_def f
    using s by simp
  have b: "phi_resonance_scan 0 = 1 / 14 \<and> first_match_score 0 = 1 / 10"
    unfolding phi_resonance_scan_last last_match_score_def first_match_score_def f0
    using s0 by simp
  from a b show ?thesis by blast
qed

lemma golden_ratio_gt_one: "1 < GOLDEN_RATIO"
  by (simp add: GOLDEN_RATIO_def)

lemma golden_powr_log:
  assumes "0 < r"
  shows "GOLDEN_RATIO powr (ln r / ln GOLDEN_RATIO) = r"
proof -
  have "0 < ln GOLDEN_RATIO" using golden_ratio_gt_one by (rule ln_gt_zero)
  then have "ln r / ln GOLDEN_RATIO * ln GOLDEN_RATIO = ln r" by simp
  moreover have "GOLDEN_RATIO \<noteq> 0" using golden_ratio_gt_one by simp
  ultimately show ?thesis using assms by (simp add: powr_def)
qed

lemma phi_ratio_match_nonneg: "0 \<le> a \<Longrightarrow> 0 \<le> phi_ratio_match r a ns"
  by (induction ns) auto

lemma harmonic_enhancement_loop_ok:
  "phi_harmonics_ok hs \<Longrightarrow> \<exists>E. harmonic_enhancement_loop hs x acc = Inr E \<and> acc \<le> E"
proof (induction hs arbitrary: acc)
  case Nil
  then show ?case by simp
next
  case (Cons h hs)
  then have ok: "phi_harmonics_ok hs" and fr: "ph_frequency h \<noteq> 0" and am: "0 \<le> ph_amplitude h"
    by (simp_all add: phi_harmonics_ok_def)
  show ?case
  proof (cases "ph_active h")
    case True
    define d where "d = phi_ratio_match (x / ph_frequency h) (ph_amplitude h) [1..<6]"
    have d: "0 \<le> d" unfolding d_def using am by (rule phi_ratio_match_nonneg)
    from Cons.IH [OF ok, of "acc + d"] obtain E where
      "harmonic_enhancement_loop hs x (acc + d) = Inr E" "acc + d \<le> E" by blast
    with d True fr show ?thesis by (auto simp: Let_def d_def)
  next
    case False
    with Cons.IH [OF ok, of acc] show ?thesis by simp
  qed
qed

lemma phi_harmonics_ok_generated: "phi_harmonics_ok generate_phi_harmonics"
  using golden_ratio_gt_one
  by (simp add: phi_harmonics_ok_def generate_phi_harmonics_def list_all_iff Let_def
      PHI_7777_FREQUENCY_def)

lemma transform_positive:
  assumes "0 < x"
    and "phi_harmonics_ok
           (phi_harmonics (if \<not> scalar_active p then snd (initialize_phi_scalar p) else p))"
  shows "\<exists>E. 1 \<le> E \<and>
           calculate_harmonic_enhancement
             (if \<not> scalar_active p then snd (initialize_phi_scalar p) else p)
             PHI_7777_FREQUENCY = Inr E \<and>
           apply_phi_scalar_transform p x =
             (Inr (PHI_7777_FREQUENCY * E),
              if \<not> scalar_active p then snd (initialize_phi_scalar p) else p)"
proof -
  define p1 where "p1 = (if \<not> scalar_active p then snd (initialize_phi_scalar p) else p)"
  define r where "r = x / PHI_7777_FREQUENCY"
  have S: "0 < PHI_7777_FREQUENCY" by (simp add: PHI_7777_FREQUENCY_def)
  have r: "0 < r" using assms(1) S by (simp add: r_def)
  have hi: "x / (GOLDEN_RATIO powr (ln r / ln GOLDEN_RATIO)) = PHI_7777_FREQUENCY"
    using golden_powr_log [OF r] assms(1) S by (simp add: r_def)
  have r': "0 < 1 / r" using r by simp
  have lo: "x * (GOLDEN_RATIO powr (ln (1 / r) / ln GOLDEN_RATIO)) = PHI_7777_FREQUENCY"
    using golden_powr_log [OF r'] assms(1) S by (simp add: r_def)
  from harmonic_enhancement_loop_ok [OF assms(2), of PHI_7777_FREQUENCY 1]
  obtain E where E: "calculate_harmonic_enhancement p1 PHI_7777_FREQUENCY = Inr E" "1 \<le> E"
    by (auto simp: calculate_harmonic_enhancement_def p1_def)
  have "apply_phi_scalar_transform p x = (Inr (PHI_7777_FREQUENCY * E), p1)"
    unfolding apply_phi_scalar_transform_def Let_def p1_def [symmetric] r_def [symmetric]
    using r r' hi lo E(1) by (auto simp: not_le)
  with E show ?thesis unfolding p1_def by blast
qed

lemma last_match_score_one: "last_match_score 1 = 0"
proof -
  have "filter (phi_match 1) [1..<8] = []"
    by (simp add: upt_1_8 phi_match_def GOLDEN_RATIO_def power_divide)
  then show ?thesis by (simp add: last_match_score_def)
qed

text \<open>
  In exact arithmetic both branches of the transform scale a positive frequency to the
  scalar frequency itself, so two positive inputs have the same transform and the
  resonance is \<open>1\<close>.
\<close>

lemma scalar_resonance_positive:
  assumes "0 < a" and "0 < b"
    and "phi_harmonics_ok
           (phi_harmonics (if \<not> scalar_active p then snd (initialize_phi_scalar p) else p))"
  shows "calculate_consciousness_scalar_resonance p a b =
           (Inr 1, if \<not> scalar_active p then snd (initialize_phi_scalar p) else p)"
proof -
  define p1 where "p1 = (if \<not> scalar_active p then snd (initialize_phi_scalar p) else p)"
  have act: "scalar_active p1" by (simp add: p1_def initialize_phi_scalar_def)
  then have same: "(if \<not> scalar_active p1 then snd (initialize_phi_scalar p1) else p1) = p1"
    by simp
  from transform_positive [OF assms(1) assms(3)] obtain E where
    E: "1 \<le> E" "calculate_harmonic_enhancement p1 PHI_7777_FREQUENCY = Inr E"
      "apply_phi_scalar_transform p a = (Inr (PHI_7777_FREQUENCY * E), p1)"
    unfolding p1_def by blast
  have ok1: "phi_harmonics_ok
               (phi_harmonics (if \<not> scalar_active p1 then snd (initialize_phi_scalar p1) else p1))"
    using assms(3) same by (simp add: p1_def)
  from transform_positive [OF assms(2) ok1] obtain E' where
    E': "calculate_harmonic_enhancement p1 PHI_7777_FREQUENCY = Inr E'"
      "apply_phi_scalar_transform p1 b = (Inr (PHI_7777_FREQUENCY * E'), p1)"
    unfolding same by blast
  from E(2) E'(1) have eq: "E' = E" by simp
  have nz: "PHI_7777_FREQUENCY * E \<noteq> 0"
    using E(1) by (simp add: PHI_7777_FREQUENCY_def)
  show ?thesis
    unfolding calculate_consciousness_scalar_resonance_def p1_def [symmetric]
    using E(3) E'(2) nz
    by (simp add: eq Let_def phi_resonance_scan_last last_match_score_one)
qed

text \<open>
  The function in terms of the last matching \<open>n\<close>, for every state and every pair of
  frequencies.
\<close>

lemma scalar_resonance_last_match:
  "calculate_consciousness_scalar_resonance p a b =
     (case apply_phi_scalar_transform p a of
        (Inl err, p1) \<Rightarrow> (Inl err, p1)
      | (Inr transformed_a, p1) \<Rightarrow>
          (case apply_phi_scalar_transform p1 b of
             (Inl err, p2) \<Rightarrow> (Inl err, p2)
           | (Inr transformed_b, p2) \<Rightarrow>
               if transformed_b = 0 then (Inl ZeroDivisionError, p2)
               else (Inr (max (last_match_score (transformed_a / transformed_b))
                              (exp (- \<bar>transformed_a - transformed_b\<bar> / 1000))), p2)))"
  by (simp add: calculate_consciousness_scalar_resonance_def Let_def phi_resonance_scan_last
      split: prod.splits sum.splits)

text \<open>
  Claim C2, as the code has it. For every state and every pair of frequencies,
  \<open>calculate_consciousness_scalar_resonance\<close> transforms both through the phi scalar
  (an error of either transform, or a zero second transform, is the outcome), forms the
  ratio of the transformed values, takes the phi-resonance score of the last \<open>n\<close> in
  \<open>1..7\<close> for which the ratio is within \<open>0.1\<close> of the \<open>n\<close>-th power of the golden
  ratio (score \<open>1/n\<close>) or of its reciprocal (score \<open>0.5/n\<close>), \<open>0\<close> when there is none,
  and returns the greater of that score and
  \<open>exp(-|transformedA - transformedB| / 1000)\<close>. The scan of the source is the
  last-match score at every ratio.
\<close>

theorem scalar_resonance_keeps_last_match:
  "(\<forall>r. phi_resonance_scan r = last_match_score r) \<and>
   calculate_consciousness_scalar_resonance p a b =
     (case apply_phi_scalar_transform p a of
        (Inl err, p1) \<Rightarrow> (Inl err, p1)
      | (Inr transformed_a, p1) \<Rightarrow>
          (case apply_phi_scalar_transform p1 b of
             (Inl err, p2) \<Rightarrow> (Inl err, p2)
           | (Inr transformed_b, p2) \<Rightarrow>
               if transformed_b = 0 then (Inl ZeroDivisionError, p2)
               else (Inr (max (last_match_score (transformed_a / transformed_b))
                              (exp (- \<bar>transformed_a - transformed_b\<bar> / 1000))), p2)))"
  using phi_resonance_scan_last scalar_resonance_last_match [of p a b] by blast

section \<open>State effects of the pipeline steps\<close>

lemma request_consent_state:
  "autonomy_active (snd (request_biological_consent e s entity kind r))"
  "autonomy_active s \<Longrightarrow>
     \<exists>c. snd (request_biological_consent e s entity kind r) =
           s\<lparr> consent_protocols := (consent_protocols s)(entity \<mapsto> c) \<rparr>"
  by (auto simp: request_biological_consent_def Let_def initialize_sovereignty_protocols_def)

lemma synthesize_state:
  "synthesis_active (snd (synthesize_consciousness_tech m t name))"
  "synthesis_active m \<Longrightarrow> snd (synthesize_consciousness_tech m t name) = m"
  by (auto simp: synthesize_consciousness_tech_def Let_def initialize_matrix_def
      split: option.splits)

lemma amplify_state:
  "amplification_active (snd (amplify_love_infinite l x n))"
  "amplification_active l \<Longrightarrow> snd (amplify_love_infinite l x n) = l"
  by (auto simp: amplify_love_infinite_def Let_def initialize_love_field_def)

lemma alignment_state:
  "grid_active (snd (calculate_planetary_alignment g ps))"
  "grid_active g \<Longrightarrow>
     snd (calculate_planetary_alignment g ps) =
       g\<lparr> planetary_alignment := fst (calculate_planetary_alignment g ps) \<rparr>"
  by (auto simp: calculate_planetary_alignment_def Let_def initialize_planetary_grid_def)

lemma integrate_state:
  "grid_active (snd (integrate_consciousness_with_grid g f))"
  "grid_active g \<Longrightarrow> snd (integrate_consciousness_with_grid g f) = g"
  by (auto simp: integrate_consciousness_with_grid_def Let_def initialize_planetary_grid_def)

lemma transform_state:
  "scalar_active (snd (apply_phi_scalar_transform p f))"
  "scalar_active p \<Longrightarrow> snd (apply_phi_scalar_transform p f) = p"
  by (auto simp: apply_phi_scalar_transform_def Let_def initialize_phi_scalar_def
      split: sum.splits)

lemma scalar_resonance_state:
  "scalar_active (snd (calculate_consciousness_scalar_resonance p a b))"
  "scalar_active p \<Longrightarrow> snd (calculate_consciousness_scalar_resonance p a b) = p"
proof -
  have 1: "scalar_active (snd (apply_phi_scalar_transform p a))"
    by (rule transform_state)
  have 2: "scalar_active (snd (apply_phi_scalar_transform (snd (apply_phi_scalar_transform p a)) x))"
    for x by (rule transform_state)
  show "scalar_active (snd (calculate_consciousness_scalar_resonance p a b))"
    using 1 2 [of b]
    by (auto simp: calculate_consciousness_scalar_resonance_def Let_def
        split: prod.splits sum.splits)
  assume act: "scalar_active p"
  have 3: "snd (apply_phi_scalar_transform p x) = p" for x
    using act by (rule transform_state)
  show "snd (calculate_consciousness_scalar_resonance p a b) = p"
    using 3 [of a] 3 [of b]
    by (auto simp: calculate_consciousness_scalar_resonance_def Let_def
        split: prod.splits sum.splits)
qed

text \<open>The same facts for a call whose result is named.\<close>

lemma alignment_pair:
  "calculate_planetary_alignment g ps = (a, g') \<Longrightarrow>
     grid_active g' \<and> (grid_active g \<longrightarrow> g' = g\<lparr> planetary_alignment := a \<rparr>)"
  using alignment_state [of g ps] by auto

lemma integrate_pair:
  "integrate_consciousness_with_grid g f = (v, g') \<Longrightarrow>
     grid_active g' \<and> (grid_active g \<longrightarrow> g' = g)"
  using integrate_state [of g f] by auto

lemma transform_pair:
  "apply_phi_scalar_transform p f = (v, p') \<Longrightarrow>
     scalar_active p' \<and> (scalar_active p \<longrightarrow> p' = p)"
  using transform_state [of p f] by auto

lemma scalar_resonance_pair:
  "calculate_consciousness_scalar_resonance p a b = (v, p') \<Longrightarrow>
     scalar_active p' \<and> (scalar_active p \<longrightarrow> p' = p)"
  using scalar_resonance_state [of p a b] by auto

lemma evolution_status_of_completed:
  "evolution_status_of m \<noteq> Error" "evolution_status_of m \<noteq> Denied"
  "evolution_status_of m \<noteq> Failed" "evolution_status_of m \<noteq> Processing"
  by (simp_all add: evolution_status_of_def)

lemma grid_and_phi_steps_result:
  assumes "grid_and_phi_steps w r f s l = (r', w')"
    and "synthesis_coefficient r = Some s" and "love_amplification r = Some l"
  shows "status r' = Error \<or>
         (\<exists>a x. synthesis_coefficient r' = Some s \<and> love_amplification r' = Some l \<and>
                result_planetary_alignment r' = Some a \<and> scalar_resonance r' = Some x \<and>
                overall_evolution_level r' = Some ((s + l / 10 + a + x) / 4) \<and>
                status r' = evolution_status_of ((s + l / 10 + a + x) / 4))"
  using assms
  by (auto simp: grid_and_phi_steps_def Let_def evolution_error_def add.assoc
      split: prod.splits sum.splits)

lemma grid_and_phi_steps_frame:
  assumes "grid_and_phi_steps w r f s l = (r', w')"
  shows "consciousness_matrix w' = consciousness_matrix w"
    and "recognition_pulse w' = recognition_pulse w"
    and "love_coefficient w' = love_coefficient w"
    and "sovereignty_protocols w' = sovereignty_protocols w"
    and "grid_active (grid_harmonics w')"
    and "scalar_active (phi_scalar w) \<Longrightarrow> scalar_active (phi_scalar w')"
    and "engine_active (engine w') = engine_active (engine w)"
    and "subsystems_initialized (engine w') = subsystems_initialized (engine w)"
  using assms
  by (auto simp: grid_and_phi_steps_def Let_def
      split: prod.splits sum.splits
      dest!: alignment_pair integrate_pair transform_pair scalar_resonance_pair)

lemma grid_and_phi_steps_error_frame:
  assumes "grid_and_phi_steps w r f s l = (r', w')"
    and "grid_active (grid_harmonics w)" and "scalar_active (phi_scalar w)"
    and "status r' = Error"
  shows "w' = w\<lparr> grid_harmonics :=
                  (grid_harmonics w)\<lparr> planetary_alignment :=
                    fst (calculate_planetary_alignment (grid_harmonics w) simulated_positions) \<rparr> \<rparr>"
  using assms
  by (auto simp: grid_and_phi_steps_def Let_def evolution_status_of_completed
      split: prod.splits sum.splits
      dest!: alignment_pair integrate_pair transform_pair scalar_resonance_pair)

section \<open>Properties of the orchestrator\<close>

lemma initialize_engine_ok: "fst (initialize_engine e w) = True"
  by (simp add: initialize_engine_def Let_def split_beta initialize_sovereignty_protocols_def
      initialize_matrix_def activate_anchor_def initialize_love_field_def
      initialize_planetary_grid_def initialize_phi_scalar_def)

lemma initialize_engine_components:
  "sovereignty_protocols (snd (initialize_engine e w)) =
     snd (initialize_sovereignty_protocols e (sovereignty_protocols w))"
  "consciousness_matrix (snd (initialize_engine e w)) =
     snd (initialize_matrix (consciousness_matrix w))"
  "recognition_pulse (snd (initialize_engine e w)) = snd (activate_anchor (recognition_pulse w))"
  "love_coefficient (snd (initialize_engine e w)) =
     snd (initialize_love_field (love_coefficient w))"
  "grid_harmonics (snd (initialize_engine e w)) =
     snd (initialize_planetary_grid (grid_harmonics w))"
  "phi_scalar (snd (initialize_engine e w)) = snd (initialize_phi_scalar (phi_scalar w))"
  by (simp_all add: initialize_engine_def Let_def split_beta)

lemma initialize_engine_engine:
  "engine_active (engine (snd (initialize_engine e w)))"
  "subsystems_initialized (engine (snd (initialize_engine e w)))"
  by (simp_all add: initialize_engine_def Let_def split_beta initialize_sovereignty_protocols_def
      initialize_matrix_def activate_anchor_def initialize_love_field_def
      initialize_planetary_grid_def initialize_phi_scalar_def)

lemma initialize_engine_all_active: "all_active (snd (initialize_engine e w))"
  by (simp add: all_active_def initialize_engine_engine initialize_engine_components
      initialize_sovereignty_protocols_def initialize_matrix_def initialize_love_field_def
      initialize_planetary_grid_def initialize_phi_scalar_def)

lemma initialize_engine_pulse: "pulse_active (recognition_pulse (snd (initialize_engine e w)))"
  by (simp add: initialize_engine_components activate_anchor_def)

lemma evolution_status_bands:
  "(evolution_status_of m = Transcendent_evolution) = (8 / 10 \<le> m)"
  "(evolution_status_of m = Advanced_evolution) = (6 / 10 \<le> m \<and> m < 8 / 10)"
  "(evolution_status_of m = Moderate_evolution) = (4 / 10 \<le> m \<and> m < 6 / 10)"
  "(evolution_status_of m = Minimal_evolution) = (m < 4 / 10)"
  by (auto simp: evolution_status_of_def)

text \<open>An inactive engine initialises itself and then runs the call as an active one.\<close>

lemma activate_inactive:
  "\<not> engine_active (engine w) \<Longrightarrow>
     activate_consciousness_evolution e w entity f =
       activate_consciousness_evolution e (snd (initialize_engine e w)) entity f"
  using initialize_engine_ok [of e w] initialize_engine_engine(1) [of e w]
  by (simp add: activate_consciousness_evolution_def split_beta)

text \<open>The call on an active engine, with its intermediate values named.\<close>

lemma activate_active:
  assumes "engine_active (engine w)"
    and "cons = request_biological_consent e (sovereignty_protocols w) entity
                  ''consciousness_evolution'' (f - 10, f + 10)"
    and "w1 = w\<lparr> sovereignty_protocols := snd cons \<rparr>"
    and "r0 = empty_results\<lparr> entity_id := Some entity, input_frequency := Some f,
                 timestamp := Some (time_now e), status := Processing \<rparr>"
    and "r1 = r0\<lparr> recognition_triggered :=
                 Some (trigger_consciousness_recognition (recognition_pulse w) f) \<rparr>"
    and "syn = synthesize_consciousness_tech (consciousness_matrix w) f ''cosmic_integration''"
  shows "activate_consciousness_evolution e w entity f =
      (if \<not> fst cons then (r0\<lparr> status := Denied, reason := Some ''biological_consent_denied'' \<rparr>, w1)
       else case fst syn of
              Inl err \<Rightarrow> (evolution_error r1 err, w1\<lparr> consciousness_matrix := snd syn \<rparr>)
            | Inr s \<Rightarrow>
               grid_and_phi_steps
                 (w1\<lparr> consciousness_matrix := snd syn,
                     love_coefficient := snd (amplify_love_infinite (love_coefficient w) s 50) \<rparr>)
                 (r1\<lparr> synthesis_coefficient := Some s,
                     love_amplification := Some (fst (amplify_love_infinite (love_coefficient w) s 50)) \<rparr>)
                 f s (fst (amplify_love_infinite (love_coefficient w) s 50)))"
  using assms(1) unfolding assms(2-6)
  by (auto simp: activate_consciousness_evolution_def split_beta Let_def
      split: sum.splits prod.splits)

lemma activate_active_outcome:
  assumes "engine_active (engine w)"
    and "activate_consciousness_evolution e w entity f = (r, w')"
  shows "entity_id r = Some entity \<and>
         (status r = Denied \<or> status r = Error \<or>
          (\<exists>s l a x. synthesis_coefficient r = Some s \<and> love_amplification r = Some l \<and>
                result_planetary_alignment r = Some a \<and> scalar_resonance r = Some x \<and>
                overall_evolution_level r = Some ((s + l / 10 + a + x) / 4) \<and>
                status r = evolution_status_of ((s + l / 10 + a + x) / 4)))"
proof -
  define cons where "cons = request_biological_consent e (sovereignty_protocols w) entity
                    ''consciousness_evolution'' (f - 10, f + 10)"
  define w1 where "w1 = w\<lparr> sovereignty_protocols := snd cons \<rparr>"
  define r0 where "r0 = empty_results\<lparr> entity_id := Some entity, input_frequency := Some f,
                      timestamp := Some (time_now e), status := Processing \<rparr>"
  define r1 where "r1 = r0\<lparr> recognition_triggered :=
                      Some (trigger_consciousness_recognition (recognition_pulse w) f) \<rparr>"
  define syn where "syn = synthesize_consciousness_tech (consciousness_matrix w) f ''cosmic_integration''"
  note unfold = activate_active [OF assms(1) cons_def w1_def r0_def r1_def syn_def]
  have id0: "entity_id r0 = Some entity" "entity_id r1 = Some entity"
    by (simp_all add: r0_def r1_def)
  show ?thesis
  proof (cases "fst cons")
    case False
    with assms(2) unfold id0 show ?thesis by auto
  next
    case True
    show ?thesis
    proof (cases "fst syn")
      case (Inl err)
      with assms(2) unfold True id0 show ?thesis by (auto simp: evolution_error_def)
    next
      case (Inr s)
      define l where "l = fst (amplify_love_infinite (love_coefficient w) s 50)"
      define w3 where "w3 = w1\<lparr> consciousness_matrix := snd syn,
                     love_coefficient := snd (amplify_love_infinite (love_coefficient w) s 50) \<rparr>"
      define r3 where "r3 = r1\<lparr> synthesis_coefficient := Some s, love_amplification := Some l \<rparr>"
      from assms(2) unfold True Inr have g: "grid_and_phi_steps w3 r3 f s l = (r, w')"
        by (simp add: l_def w3_def r3_def)
      have f3: "synthesis_coefficient r3 = Some s" "love_amplification r3 = Some l"
        "entity_id r3 = Some entity"
        by (simp_all add: r3_def id0)
      have "entity_id r = Some entity"
        using g f3(3)
        by (auto simp: grid_and_phi_steps_def Let_def evolution_error_def
            split: prod.splits sum.splits)
      with grid_and_phi_steps_result [OF g f3(1,2)] show ?thesis by blast
    qed
  qed
qed

text \<open>Facts for evaluating the pipeline at concrete inputs.\<close>

lemma exp_neg_below_threshold:
  assumes "1 \<le> (c::real)"
  shows "exp (- c) < 8 / 10"
proof -
  have "(2::real) \<le> exp 1" using exp_ge_add_one_self [of "1::real"] by simp
  also have "exp 1 \<le> exp c" using assms by simp
  finally have "2 \<le> exp c" .
  then have "inverse (exp c) \<le> inverse 2"
    by (intro le_imp_inverse_le) simp_all
  then show ?thesis by (simp add: exp_minus)
qed

lemma integrate_weak:
  assumes "grid_active g"
    and "1 \<le> \<bar>f / min_by_key (\<lambda>x. \<bar>x - f\<bar>) SCHUMANN_FREQUENCIES - 1\<bar>"
  shows "integrate_consciousness_with_grid g f =
           (Inr (f * (1 + exp (- \<bar>f / min_by_key (\<lambda>x. \<bar>x - f\<bar>) SCHUMANN_FREQUENCIES - 1\<bar>)
                          * (1 / 10))), g)"
  using assms(1) exp_neg_below_threshold [OF assms(2)]
  by (simp add: integrate_consciousness_with_grid_def Let_def integration_threshold_def)

lemma best_schumann_432: "min_by_key (\<lambda>x. \<bar>x - 432\<bar>) SCHUMANN_FREQUENCIES = 45"
  by (simp add: min_by_key_def SCHUMANN_FREQUENCIES_def)

lemma best_schumann_minus_100: "min_by_key (\<lambda>x. \<bar>x - (- 100)\<bar>) SCHUMANN_FREQUENCIES = 783 / 100"
  by (simp add: min_by_key_def SCHUMANN_FREQUENCIES_def)

lemma sample_integrity: "assess_biological_integrity sample_env entity = 1"
  by (simp add: assess_biological_integrity_def sample_env_def py_fmod_def Let_def)

lemma consent_granted_sample:
  assumes "autonomy_active s"
    and "\<not> (\<exists>p \<in> protected_frequencies s. lo \<le> p \<and> p \<le> hi)"
  shows "fst (request_biological_consent sample_env s entity kind (lo, hi)) = True"
  using assms
  by (simp add: request_biological_consent_def Let_def sample_integrity
      biological_integrity_threshold_def)

lemma transform_negative:
  assumes "x < 0"
  shows "fst (apply_phi_scalar_transform p x) = Inl ValueError"
proof -
  have S: "0 < PHI_7777_FREQUENCY" by (simp add: PHI_7777_FREQUENCY_def)
  have r: "x / PHI_7777_FREQUENCY < 0"
    using assms S by (simp add: divide_less_0_iff)
  then have "\<not> 1 < x / PHI_7777_FREQUENCY" by linarith
  moreover have "x / PHI_7777_FREQUENCY \<noteq> 0" using r by linarith
  moreover have "1 / (x / PHI_7777_FREQUENCY) \<le> 0"
    using assms S by (simp add: divide_le_0_iff)
  ultimately show ?thesis
    by (simp add: apply_phi_scalar_transform_def Let_def)
qed

text \<open>
  Claim C1. For every environment, state, entity id and frequency: when the evolve
  pipeline ends in none of the outcomes \<open>failed\<close>, \<open>denied\<close>, \<open>error\<close>, the result
  holds the four metrics, its \<open>overall_evolution_level\<close> is the arithmetic mean of
  \<open>synthesis_coefficient\<close>, \<open>love_amplification / 10\<close>, \<open>planetary_alignment\<close> and
  \<open>scalar_resonance\<close>, and its status is \<open>transcendent_evolution\<close> exactly when the
  mean is at least \<open>0.8\<close>, \<open>advanced_evolution\<close> exactly when it is in \<open>[0.6, 0.8)\<close>,
  \<open>moderate_evolution\<close> exactly when it is in \<open>[0.4, 0.6)\<close> and \<open>minimal_evolution\<close>
  exactly when it is below \<open>0.4\<close>.
\<close>

theorem overall_evolution_is_mean_with_bands:
  assumes "activate_consciousness_evolution e w entity f = (r, w')"
    and "status r \<noteq> Failed" and "status r \<noteq> Denied" and "status r \<noteq> Error"
  shows "\<exists>s l a x.
           synthesis_coefficient r = Some s \<and> love_amplification r = Some l \<and>
           result_planetary_alignment r = Some a \<and> scalar_resonance r = Some x \<and>
           overall_evolution_level r = Some ((s + l / 10 + a + x) / 4) \<and>
           (status r = Transcendent_evolution) = (8 / 10 \<le> (s + l / 10 + a + x) / 4) \<and>
           (status r = Advanced_evolution) =
             (6 / 10 \<le> (s + l / 10 + a + x) / 4 \<and> (s + l / 10 + a + x) / 4 < 8 / 10) \<and>
           (status r = Moderate_evolution) =
             (4 / 10 \<le> (s + l / 10 + a + x) / 4 \<and> (s + l / 10 + a + x) / 4 < 6 / 10) \<and>
           (status r = Minimal_evolution) = ((s + l / 10 + a + x) / 4 < 4 / 10)"
proof -
  define w0 where "w0 = (if engine_active (engine w) then w else snd (initialize_engine e w))"
  have act: "engine_active (engine w0)"
    by (simp add: w0_def initialize_engine_engine)
  have "activate_consciousness_evolution e w0 entity f = (r, w')"
    using assms(1) activate_inactive [of w e entity f] by (simp add: w0_def split: if_splits)
  from activate_active_outcome [OF act this] assms(3,4)
  obtain s l a x where *:
    "synthesis_coefficient r = Some s" "love_amplification r = Some l"
    "result_planetary_alignment r = Some a" "scalar_resonance r = Some x"
    "overall_evolution_level r = Some ((s + l / 10 + a + x) / 4)"
    "status r = evolution_status_of ((s + l / 10 + a + x) / 4)"
    by blast
  show ?thesis
    using * by (simp only: evolution_status_bands) blast
qed


text \<open>
  Steps 5 and 6 on an active grid and phi scalar, for a positive frequency far from
  every Schumann frequency: no step raises and the scalar resonance is \<open>1\<close>.
\<close>

lemma grid_and_phi_steps_completes:
  assumes "grid_active (grid_harmonics w)" and "scalar_active (phi_scalar w)"
    and "phi_harmonics_ok (phi_harmonics (phi_scalar w))"
    and "0 < f"
    and "1 \<le> \<bar>f / min_by_key (\<lambda>x. \<bar>x - f\<bar>) SCHUMANN_FREQUENCIES - 1\<bar>"
  shows "status (fst (grid_and_phi_steps w r f s l)) =
           evolution_status_of
             ((s + (l / 10
                + (fst (calculate_planetary_alignment (grid_harmonics w) simulated_positions)
                   + 1))) / 4)"
proof -
  define g1 where "g1 = snd (calculate_planetary_alignment (grid_harmonics w) simulated_positions)"
  have g1: "grid_active g1" by (simp add: g1_def alignment_state)
  define v where "v = f * (1 + exp (- \<bar>f / min_by_key (\<lambda>x. \<bar>x - f\<bar>) SCHUMANN_FREQUENCIES - 1\<bar>) * (1 / 10))"
  have int: "integrate_consciousness_with_grid g1 f = (Inr v, g1)"
    unfolding v_def by (rule integrate_weak [OF g1 assms(5)])
  have "0 < 1 + exp (- \<bar>f / min_by_key (\<lambda>x. \<bar>x - f\<bar>) SCHUMANN_FREQUENCIES - 1\<bar>) * (1 / 10)"
    by (simp add: add_pos_nonneg)
  then have v: "0 < v" unfolding v_def using assms(4) by (rule mult_pos_pos [rotated])
  have ok: "phi_harmonics_ok
              (phi_harmonics (if \<not> scalar_active (phi_scalar w)
                              then snd (initialize_phi_scalar (phi_scalar w)) else phi_scalar w))"
    using assms(2,3) by simp
  from transform_positive [OF v ok] assms(2) obtain E where
    E: "1 \<le> E" "apply_phi_scalar_transform (phi_scalar w) v =
          (Inr (PHI_7777_FREQUENCY * E), phi_scalar w)"
    by auto
  have pos: "0 < PHI_7777_FREQUENCY * E"
    using E(1) by (simp add: PHI_7777_FREQUENCY_def)
  have res: "calculate_consciousness_scalar_resonance (phi_scalar w) f (PHI_7777_FREQUENCY * E) =
          (Inr 1, phi_scalar w)"
    using scalar_resonance_positive [OF assms(4) pos ok] assms(2) by simp
  have al: "calculate_planetary_alignment (grid_harmonics w) simulated_positions =
              (fst (calculate_planetary_alignment (grid_harmonics w) simulated_positions), g1)"
    by (simp add: g1_def)
  show ?thesis
    unfolding grid_and_phi_steps_def
    by (subst al) (simp add: Let_def int E(2) res)
qed

lemma evolving_world:
  "phi_harmonics_ok (phi_harmonics (phi_scalar (snd (initialize_engine e w))))"
  "consciousness_layers (consciousness_matrix (snd (initialize_engine e w)))
     ''cosmic_integration'' = Some 741"
  "protected_frequencies (sovereignty_protocols (snd (initialize_engine e w))) =
     protected_constants"
  by (simp_all add: initialize_engine_components initialize_phi_scalar_def
      phi_harmonics_ok_generated initialize_matrix_fields initialize_sovereignty_protocols_def)

lemma no_protected_frequency_near_432:
  "\<not> (\<exists>p \<in> protected_constants. 432 - 10 \<le> p \<and> p \<le> 432 + (10::real))"
  by (simp add: protected_constants_def)

theorem overall_evolution_is_mean_with_bands_witness:
  "\<exists>s l a x.
     synthesis_coefficient (fst (activate_consciousness_evolution sample_env world_init ''e1'' 432))
       = Some s \<and>
     love_amplification (fst (activate_consciousness_evolution sample_env world_init ''e1'' 432))
       = Some l \<and>
     result_planetary_alignment
       (fst (activate_consciousness_evolution sample_env world_init ''e1'' 432)) = Some a \<and>
     scalar_resonance (fst (activate_consciousness_evolution sample_env world_init ''e1'' 432))
       = Some x \<and>
     overall_evolution_level (fst (activate_consciousness_evolution sample_env world_init ''e1'' 432))
       = Some ((s + l / 10 + a + x) / 4)"
proof -
  define W where "W = snd (initialize_engine sample_env world_init)"
  define R where "R = activate_consciousness_evolution sample_env world_init ''e1'' 432"
  have inactive: "\<not> engine_active (engine world_init)"
    by (simp add: world_init_def)
  have RW: "R = activate_consciousness_evolution sample_env W ''e1'' 432"
    unfolding R_def W_def using inactive by (rule activate_inactive)
  have act: "all_active W" unfolding W_def by (rule initialize_engine_all_active)
  then have flags: "engine_active (engine W)" "autonomy_active (sovereignty_protocols W)"
    "synthesis_active (consciousness_matrix W)" "amplification_active (love_coefficient W)"
    "grid_active (grid_harmonics W)" "scalar_active (phi_scalar W)"
    by (simp_all add: all_active_def)
  have granted: "fst (request_biological_consent sample_env (sovereignty_protocols W) ''e1''
                   ''consciousness_evolution'' (432 - 10, 432 + 10)) = True"
    using flags(2) no_protected_frequency_near_432
    by (intro consent_granted_sample) (simp_all add: W_def evolving_world)
  have syn: "synthesize_consciousness_tech (consciousness_matrix W) 432 ''cosmic_integration'' =
      (Inr \<bar>sin (432 / 741 * pi) * evolution_coefficient (consciousness_matrix W)\<bar>,
       consciousness_matrix W)"
    using flags(3) by (intro synthesize_active) (simp_all add: W_def evolving_world)
  define s where "s = \<bar>sin (432 / 741 * pi) * evolution_coefficient (consciousness_matrix W)\<bar>"
  define l where "l = fst (amplify_love_infinite (love_coefficient W) s 50)"
  define w3 where "w3 = W\<lparr> sovereignty_protocols :=
        snd (request_biological_consent sample_env (sovereignty_protocols W) ''e1''
               ''consciousness_evolution'' (432 - 10, 432 + 10)),
      consciousness_matrix := consciousness_matrix W,
      love_coefficient := snd (amplify_love_infinite (love_coefficient W) s 50) \<rparr>"
  have w3: "grid_active (grid_harmonics w3)" "scalar_active (phi_scalar w3)"
    "phi_harmonics_ok (phi_harmonics (phi_scalar w3))"
    using flags by (simp_all add: w3_def W_def evolving_world)
  have far: "1 \<le> \<bar>432 / min_by_key (\<lambda>x. \<bar>x - 432\<bar>) SCHUMANN_FREQUENCIES - (1::real)\<bar>"
    by (simp add: best_schumann_432)
  define r3 where "r3 = empty_results\<lparr> entity_id := Some ''e1'', input_frequency := Some 432,
      timestamp := Some (time_now sample_env), status := Processing,
      recognition_triggered := Some (trigger_consciousness_recognition (recognition_pulse W) 432),
      synthesis_coefficient := Some s, love_amplification := Some l \<rparr>"
  have R3: "R = grid_and_phi_steps w3 r3 432 s l"
    unfolding RW
    unfolding activate_active [OF flags(1) refl refl refl refl refl] r3_def w3_def l_def s_def
    by (simp only: granted syn fst_conv snd_conv not_True_eq_False if_False sum.case)
  have st: "status (fst R) =
      evolution_status_of
        ((s + (l / 10
           + (fst (calculate_planetary_alignment (grid_harmonics w3) simulated_positions) + 1))) / 4)"
    unfolding R3 by (rule grid_and_phi_steps_completes [OF w3]) (simp_all add: far)
  have ne: "status (fst R) \<noteq> Failed" "status (fst R) \<noteq> Denied" "status (fst R) \<noteq> Error"
    unfolding st by (rule evolution_status_of_completed)+
  have eq: "activate_consciousness_evolution sample_env world_init ''e1'' 432 = (fst R, snd R)"
    by (simp add: R_def)
  from overall_evolution_is_mean_with_bands [OF eq ne]
  show ?thesis unfolding R_def by blast
qed

lemma emergency_shutdown_engine:
  "fst (emergency_shutdown w) = True"
  "\<not> engine_active (engine (snd (emergency_shutdown w)))"
  by (simp_all add: emergency_shutdown_def)

text \<open>A call on a world with everything active leaves the components as follows.\<close>

lemma activate_active_frame:
  assumes "all_active w"
    and "activate_consciousness_evolution e w entity f = (r, w')"
  shows "consciousness_matrix w' = consciousness_matrix w"
    and "recognition_pulse w' = recognition_pulse w"
    and "love_coefficient w' = love_coefficient w"
    and "phi_scalar w' = phi_scalar w"
    and "\<exists>c. sovereignty_protocols w' =
           (sovereignty_protocols w)
             \<lparr> consent_protocols := (consent_protocols (sovereignty_protocols w))(entity \<mapsto> c) \<rparr>"
    and "grid_harmonics w' = grid_harmonics w \<or>
         grid_harmonics w' =
           (grid_harmonics w)\<lparr> planetary_alignment :=
              fst (calculate_planetary_alignment (grid_harmonics w) simulated_positions) \<rparr>"
    and "status r = Denied \<Longrightarrow> grid_harmonics w' = grid_harmonics w"
    and "status r = Denied \<or> status r = Error \<Longrightarrow> engine w' = engine w"
    and "engine_active (engine w')" and "subsystems_initialized (engine w') = subsystems_initialized (engine w)"
proof -
  from assms(1) have flags: "engine_active (engine w)" "autonomy_active (sovereignty_protocols w)"
    "synthesis_active (consciousness_matrix w)" "amplification_active (love_coefficient w)"
    "grid_active (grid_harmonics w)" "scalar_active (phi_scalar w)"
    by (simp_all add: all_active_def)
  define cons where "cons = request_biological_consent e (sovereignty_protocols w) entity
                    ''consciousness_evolution'' (f - 10, f + 10)"
  define w1 where "w1 = w\<lparr> sovereignty_protocols := snd cons \<rparr>"
  define r0 where "r0 = empty_results\<lparr> entity_id := Some entity, input_frequency := Some f,
                      timestamp := Some (time_now e), status := Processing \<rparr>"
  define r1 where "r1 = r0\<lparr> recognition_triggered :=
                      Some (trigger_consciousness_recognition (recognition_pulse w) f) \<rparr>"
  define syn where "syn = synthesize_consciousness_tech (consciousness_matrix w) f ''cosmic_integration''"
  note unfold = activate_active [OF flags(1) cons_def w1_def r0_def r1_def syn_def]
  have syn_state: "snd syn = consciousness_matrix w"
    unfolding syn_def using flags(3) by (rule synthesize_state)
  have amp_state: "snd (amplify_love_infinite (love_coefficient w) s 50) = love_coefficient w" for s
    using flags(4) by (rule amplify_state)
  from request_consent_state(2) [OF flags(2)] obtain c where
    c: "snd cons = (sovereignty_protocols w)
             \<lparr> consent_protocols := (consent_protocols (sovereignty_protocols w))(entity \<mapsto> c) \<rparr>"
    unfolding cons_def by blast
  have st0: "status r0 = Processing" "status r1 = Processing" by (simp_all add: r0_def r1_def)
  consider (denied) "\<not> fst cons" | (synth_error) err where "fst cons" "fst syn = Inl err"
    | (steps) s where "fst cons" "fst syn = Inr s"
    by (cases "fst syn") auto
  then have
    "consciousness_matrix w' = consciousness_matrix w \<and>
     recognition_pulse w' = recognition_pulse w \<and>
     love_coefficient w' = love_coefficient w \<and>
     phi_scalar w' = phi_scalar w \<and>
     sovereignty_protocols w' = snd cons \<and>
     (grid_harmonics w' = grid_harmonics w \<or>
         grid_harmonics w' =
           (grid_harmonics w)\<lparr> planetary_alignment :=
              fst (calculate_planetary_alignment (grid_harmonics w) simulated_positions) \<rparr>) \<and>
     (status r = Denied \<longrightarrow> grid_harmonics w' = grid_harmonics w) \<and>
     (status r = Denied \<or> status r = Error \<longrightarrow> engine w' = engine w) \<and>
     engine_active (engine w') \<and> subsystems_initialized (engine w') = subsystems_initialized (engine w)"
  proof cases
    case denied
    with assms(2) unfold have "r = r0\<lparr> status := Denied, reason := Some ''biological_consent_denied'' \<rparr>"
      "w' = w1" by auto
    then show ?thesis using flags(1) by (simp add: w1_def)
  next
    case (synth_error err)
    with assms(2) unfold have "w' = w1\<lparr> consciousness_matrix := snd syn \<rparr>"
      "r = evolution_error r1 err" by auto
    then show ?thesis using flags(1) syn_state by (simp add: w1_def evolution_error_def)
  next
    case (steps s)
    define l where "l = fst (amplify_love_infinite (love_coefficient w) s 50)"
    define w3 where "w3 = w1\<lparr> consciousness_matrix := snd syn,
                     love_coefficient := snd (amplify_love_infinite (love_coefficient w) s 50) \<rparr>"
    define r3 where "r3 = r1\<lparr> synthesis_coefficient := Some s, love_amplification := Some l \<rparr>"
    from assms(2) unfold steps have g: "grid_and_phi_steps w3 r3 f s l = (r, w')"
      by (simp add: l_def w3_def r3_def)
    have w3: "consciousness_matrix w3 = consciousness_matrix w"
      "recognition_pulse w3 = recognition_pulse w" "love_coefficient w3 = love_coefficient w"
      "phi_scalar w3 = phi_scalar w" "sovereignty_protocols w3 = snd cons"
      "grid_harmonics w3 = grid_harmonics w" "engine w3 = engine w"
      by (simp_all add: w3_def w1_def syn_state amp_state)
    have f3: "synthesis_coefficient r3 = Some s" "love_amplification r3 = Some l"
      by (simp_all add: r3_def)
    have ga: "grid_active (grid_harmonics w3)" "scalar_active (phi_scalar w3)"
      using flags by (simp_all add: w3)
    have notdenied: "status r \<noteq> Denied"
      using grid_and_phi_steps_result [OF g f3] by (auto simp: evolution_status_of_completed)
    have err: "status r = Error \<Longrightarrow> engine w' = engine w"
      using grid_and_phi_steps_error_frame [OF g ga] by (simp add: w3)
    have gr: "grid_harmonics w' =
           (grid_harmonics w)\<lparr> planetary_alignment :=
              fst (calculate_planetary_alignment (grid_harmonics w) simulated_positions) \<rparr>"
      and ph: "phi_scalar w' = phi_scalar w"
      using g ga unfolding w3(4,6) [symmetric]
      by (auto simp: grid_and_phi_steps_def Let_def
          split: prod.splits sum.splits
          dest!: alignment_pair integrate_pair transform_pair scalar_resonance_pair)
    show ?thesis
      using grid_and_phi_steps_frame(1-4,7,8) [OF g] w3 gr ph notdenied err flags(1) by simp
  qed
  with c show "consciousness_matrix w' = consciousness_matrix w"
    and "recognition_pulse w' = recognition_pulse w"
    and "love_coefficient w' = love_coefficient w"
    and "phi_scalar w' = phi_scalar w"
    and "\<exists>c. sovereignty_protocols w' =
           (sovereignty_protocols w)
             \<lparr> consent_protocols := (consent_protocols (sovereignty_protocols w))(entity \<mapsto> c) \<rparr>"
    and "grid_harmonics w' = grid_harmonics w \<or>
         grid_harmonics w' =
           (grid_harmonics w)\<lparr> planetary_alignment :=
              fst (calculate_planetary_alignment (grid_harmonics w) simulated_positions) \<rparr>"
    and "status r = Denied \<Longrightarrow> grid_harmonics w' = grid_harmonics w"
    and "status r = Denied \<or> status r = Error \<Longrightarrow> engine w' = engine w"
    and "engine_active (engine w')" and "subsystems_initialized (engine w') = subsystems_initialized (engine w)"
    by auto
qed

text \<open>
  Claim C7. \<open>emergency_shutdown\<close> returns \<open>True\<close> and leaves the engine inactive; the
  evolve call that follows, for any entity id and frequency, is the call on the
  re-initialised engine: \<open>initialize_engine\<close> runs first and makes all six components
  active, and the call then goes through the pipeline. Its outcome is never the
  engine-initialization-failed one, the result carries the entity id and a final
  status, and the engine and all six components are active afterwards.
\<close>

theorem evolve_after_shutdown_reinitializes:
  "fst (emergency_shutdown w) = True \<and>
   \<not> engine_active (engine (snd (emergency_shutdown w))) \<and>
   activate_consciousness_evolution e (snd (emergency_shutdown w)) entity f =
     activate_consciousness_evolution e
       (snd (initialize_engine e (snd (emergency_shutdown w)))) entity f \<and>
   all_active (snd (initialize_engine e (snd (emergency_shutdown w)))) \<and>
   pulse_active (recognition_pulse (snd (initialize_engine e (snd (emergency_shutdown w))))) \<and>
   status (fst (activate_consciousness_evolution e (snd (emergency_shutdown w)) entity f))
     \<noteq> Failed \<and>
   status (fst (activate_consciousness_evolution e (snd (emergency_shutdown w)) entity f))
     \<noteq> Processing \<and>
   entity_id (fst (activate_consciousness_evolution e (snd (emergency_shutdown w)) entity f))
     = Some entity \<and>
   all_active (snd (activate_consciousness_evolution e (snd (emergency_shutdown w)) entity f)) \<and>
   pulse_active
     (recognition_pulse
        (snd (activate_consciousness_evolution e (snd (emergency_shutdown w)) entity f))) \<and>
   subsystems_initialized
     (engine (snd (activate_consciousness_evolution e (snd (emergency_shutdown w)) entity f)))"
proof -
  define w1 where "w1 = snd (emergency_shutdown w)"
  define W where "W = snd (initialize_engine e w1)"
  define R where "R = activate_consciousness_evolution e w1 entity f"
  have off: "\<not> engine_active (engine w1)"
    unfolding w1_def by (rule emergency_shutdown_engine)
  have RW: "R = activate_consciousness_evolution e W entity f"
    unfolding R_def W_def using off by (rule activate_inactive)
  have act: "all_active W" unfolding W_def by (rule initialize_engine_all_active)
  then have flags: "engine_active (engine W)" "autonomy_active (sovereignty_protocols W)"
    "synthesis_active (consciousness_matrix W)" "amplification_active (love_coefficient W)"
    "grid_active (grid_harmonics W)" "scalar_active (phi_scalar W)"
    by (simp_all add: all_active_def)
  have pulse: "pulse_active (recognition_pulse W)"
    unfolding W_def by (rule initialize_engine_pulse)
  have sub: "subsystems_initialized (engine W)"
    unfolding W_def by (rule initialize_engine_engine)
  have eq: "activate_consciousness_evolution e W entity f = (fst R, snd R)"
    by (simp add: RW)
  from activate_active_outcome [OF flags(1) eq]
  have out: "entity_id (fst R) = Some entity" "status (fst R) \<noteq> Failed"
    "status (fst R) \<noteq> Processing"
    by (auto simp: evolution_status_of_completed)
  note fr = activate_active_frame [OF act eq]
  from fr(5) obtain c where
    c: "sovereignty_protocols (snd R) =
           (sovereignty_protocols W)
             \<lparr> consent_protocols := (consent_protocols (sovereignty_protocols W))(entity \<mapsto> c) \<rparr>"
    by blast
  have grid: "grid_active (grid_harmonics (snd R))"
    using fr(6) flags(5) by auto
  have after: "all_active (snd R)"
    unfolding all_active_def using fr(1,3,4,9) c grid flags by simp
  have pulse': "pulse_active (recognition_pulse (snd R))"
    using fr(2) pulse by simp
  have sub': "subsystems_initialized (engine (snd R))"
    using fr(10) sub by simp
  show ?thesis
    using emergency_shutdown_engine [of w] RW act pulse out after pulse' sub'
    unfolding R_def W_def w1_def by blast
qed

lemma activate_denied:
  assumes "engine_active (engine w)"
    and "fst (request_biological_consent e (sovereignty_protocols w) entity
                ''consciousness_evolution'' (f - 10, f + 10)) = False"
  shows "status (fst (activate_consciousness_evolution e w entity f)) = Denied"
  unfolding activate_active [OF assms(1) refl refl refl refl refl]
  using assms(2) by simp

text \<open>
  Claim C3, as the code has it. For an evolve call on an engine that is active with its
  components active (so that nothing initialises itself during the call) and that ends
  with status \<open>denied\<close> or \<open>error\<close>: the engine, the consciousness matrix, the
  recognition pulse, the love field and the phi scalar are unchanged; the sovereignty
  protocols differ in the consent record of the entity only; the grid is unchanged or
  differs in \<open>planetary_alignment\<close> only, which step 5 stores before a later step
  fails; after a denial the grid is unchanged.
\<close>

theorem failed_evolve_changes_consent_and_alignment_only:
  assumes "all_active w"
    and "activate_consciousness_evolution e w entity f = (r, w')"
    and "status r = Denied \<or> status r = Error"
  shows "engine w' = engine w \<and>
         consciousness_matrix w' = consciousness_matrix w \<and>
         recognition_pulse w' = recognition_pulse w \<and>
         love_coefficient w' = love_coefficient w \<and>
         phi_scalar w' = phi_scalar w \<and>
         (\<exists>c. sovereignty_protocols w' =
            (sovereignty_protocols w)
              \<lparr> consent_protocols := (consent_protocols (sovereignty_protocols w))(entity \<mapsto> c) \<rparr>) \<and>
         (grid_harmonics w' = grid_harmonics w \<or>
          grid_harmonics w' =
            (grid_harmonics w)\<lparr> planetary_alignment :=
               fst (calculate_planetary_alignment (grid_harmonics w) simulated_positions) \<rparr>) \<and>
         (status r = Denied \<longrightarrow> grid_harmonics w' = grid_harmonics w)"
  using activate_active_frame(1-8) [OF assms(1,2)] assms(3) by blast

lemma initialized_world_checked:
  "checked_frequencies (sovereignty_protocols (snd (initialize_engine e w))) = protected_constants"
  by (simp add: checked_frequencies_def initialize_engine_components
      initialize_sovereignty_protocols_def)

lemma denied_at_8:
  "status (fst (activate_consciousness_evolution e (snd (initialize_engine e' w)) entity 8)) = Denied"
proof -
  have "(8::real) \<in> checked_frequencies (sovereignty_protocols (snd (initialize_engine e' w)))"
    by (simp add: initialized_world_checked protected_constants_def)
  from request_consent_conflict [OF this, of "8 - 10" "8 + 10"]
  have "fst (request_biological_consent e (sovereignty_protocols (snd (initialize_engine e' w)))
               entity ''consciousness_evolution'' (8 - 10, 8 + 10)) = False"
    by simp
  with initialize_engine_engine(1) show ?thesis by (rule activate_denied)
qed

theorem failed_evolve_changes_consent_and_alignment_only_witness:
  "status (fst (activate_consciousness_evolution sample_env
                  (snd (initialize_engine sample_env world_init)) ''e1'' 8)) = Denied \<and>
   engine (snd (activate_consciousness_evolution sample_env
                  (snd (initialize_engine sample_env world_init)) ''e1'' 8)) =
     engine (snd (initialize_engine sample_env world_init)) \<and>
   consciousness_matrix (snd (activate_consciousness_evolution sample_env
                  (snd (initialize_engine sample_env world_init)) ''e1'' 8)) =
     consciousness_matrix (snd (initialize_engine sample_env world_init)) \<and>
   love_coefficient (snd (activate_consciousness_evolution sample_env
                  (snd (initialize_engine sample_env world_init)) ''e1'' 8)) =
     love_coefficient (snd (initialize_engine sample_env world_init)) \<and>
   phi_scalar (snd (activate_consciousness_evolution sample_env
                  (snd (initialize_engine sample_env world_init)) ''e1'' 8)) =
     phi_scalar (snd (initialize_engine sample_env world_init)) \<and>
   grid_harmonics (snd (activate_consciousness_evolution sample_env
                  (snd (initialize_engine sample_env world_init)) ''e1'' 8)) =
     grid_harmonics (snd (initialize_engine sample_env world_init))"
proof -
  define W where "W = snd (initialize_engine sample_env world_init)"
  define R where "R = activate_consciousness_evolution sample_env W ''e1'' 8"
  have act: "all_active W" unfolding W_def by (rule initialize_engine_all_active)
  have den: "status (fst R) = Denied" unfolding R_def W_def by (rule denied_at_8)
  have eq: "activate_consciousness_evolution sample_env W ''e1'' 8 = (fst R, snd R)"
    by (simp add: R_def)
  from failed_evolve_changes_consent_and_alignment_only [OF act eq] den
  show ?thesis unfolding R_def W_def by blast
qed

lemma simulated_alignment_positive:
  "0 < fst (calculate_planetary_alignment g simulated_positions)"
proof -
  define rest where "rest = alignment_factors (tl simulated_positions)"
  have first: "weighted_alignment (783 / 100) 0 = 783 / 22123"
    by (simp add: weighted_alignment_def Let_def py_fmod_def radians_def max_planetary_frequency)
  have fs: "alignment_factors simulated_positions = 783 / 22123 # rest"
    by (simp add: simulated_positions_def rest_def PLANETARY_FREQUENCIES_def first)
  have "0 \<le> sum_list rest \<and> sum_list rest \<le> real (length rest)"
    unfolding rest_def by (rule sum_list_unit_bounds) (rule alignment_factors_range)
  then have "0 < sum_list (alignment_factors simulated_positions)"
    by (simp add: fs)
  then show ?thesis
    by (simp add: alignment_value fs)
qed

lemma grid_and_phi_steps_negative:
  assumes "grid_active (grid_harmonics w)" and "f < 0"
    and "1 \<le> \<bar>f / min_by_key (\<lambda>x. \<bar>x - f\<bar>) SCHUMANN_FREQUENCIES - 1\<bar>"
  shows "status (fst (grid_and_phi_steps w r f s l)) = Error"
    and "planetary_alignment (grid_harmonics (snd (grid_and_phi_steps w r f s l))) =
           fst (calculate_planetary_alignment (grid_harmonics w) simulated_positions)"
proof -
  define g1 where "g1 = snd (calculate_planetary_alignment (grid_harmonics w) simulated_positions)"
  have g1: "grid_active g1" by (simp add: g1_def alignment_state)
  have pa: "planetary_alignment g1 =
              fst (calculate_planetary_alignment (grid_harmonics w) simulated_positions)"
    by (simp add: g1_def alignment_value)
  define v where "v = f * (1 + exp (- \<bar>f / min_by_key (\<lambda>x. \<bar>x - f\<bar>) SCHUMANN_FREQUENCIES - 1\<bar>) * (1 / 10))"
  have int: "integrate_consciousness_with_grid g1 f = (Inr v, g1)"
    unfolding v_def by (rule integrate_weak [OF g1 assms(3)])
  have "0 < 1 + exp (- \<bar>f / min_by_key (\<lambda>x. \<bar>x - f\<bar>) SCHUMANN_FREQUENCIES - 1\<bar>) * (1 / 10)"
    by (simp add: add_pos_nonneg)
  then have v: "v < 0" unfolding v_def using assms(2) by (rule mult_neg_pos [rotated])
  have tr: "fst (apply_phi_scalar_transform p v) = Inl ValueError" for p
    using v by (rule transform_negative)
  define A where "A = fst (calculate_planetary_alignment (grid_harmonics w) simulated_positions)"
  have al: "calculate_planetary_alignment (grid_harmonics w) simulated_positions = (A, g1)"
    by (simp add: g1_def A_def)
  obtain p' where tr': "apply_phi_scalar_transform (phi_scalar w) v = (Inl ValueError, p')"
    using tr [of "phi_scalar w"] by (cases "apply_phi_scalar_transform (phi_scalar w) v") auto
  have "status (fst (grid_and_phi_steps w r f s l)) = Error \<and>
        grid_harmonics (snd (grid_and_phi_steps w r f s l)) = g1"
    unfolding grid_and_phi_steps_def
    by (simp add: al Let_def int tr' evolution_error_def)
  then show "status (fst (grid_and_phi_steps w r f s l)) = Error"
    and "planetary_alignment (grid_harmonics (snd (grid_and_phi_steps w r f s l))) =
           fst (calculate_planetary_alignment (grid_harmonics w) simulated_positions)"
    using pa by simp_all
qed

lemma no_protected_frequency_near_minus_100:
  "\<not> (\<exists>p \<in> protected_constants. - 100 - 10 \<le> p \<and> p \<le> - 100 + (10::real))"
  by (simp add: protected_constants_def)

lemma error_at_minus_100:
  "status (fst (activate_consciousness_evolution sample_env
                  (snd (initialize_engine sample_env world_init)) ''e1'' (- 100))) = Error"
  "0 < planetary_alignment
         (grid_harmonics
            (snd (activate_consciousness_evolution sample_env
                    (snd (initialize_engine sample_env world_init)) ''e1'' (- 100))))"
proof -
  define W where "W = snd (initialize_engine sample_env world_init)"
  define R where "R = activate_consciousness_evolution sample_env W ''e1'' (- 100)"
  have act: "all_active W" unfolding W_def by (rule initialize_engine_all_active)
  then have flags: "engine_active (engine W)" "autonomy_active (sovereignty_protocols W)"
    "synthesis_active (consciousness_matrix W)" "amplification_active (love_coefficient W)"
    "grid_active (grid_harmonics W)" "scalar_active (phi_scalar W)"
    by (simp_all add: all_active_def)
  have granted: "fst (request_biological_consent sample_env (sovereignty_protocols W) ''e1''
                   ''consciousness_evolution'' (- 100 - 10, - 100 + 10)) = True"
    using flags(2) no_protected_frequency_near_minus_100
    by (intro consent_granted_sample) (simp_all add: W_def evolving_world)
  have syn: "synthesize_consciousness_tech (consciousness_matrix W) (- 100) ''cosmic_integration'' =
      (Inr \<bar>sin (- 100 / 741 * pi) * evolution_coefficient (consciousness_matrix W)\<bar>,
       consciousness_matrix W)"
    using flags(3) by (intro synthesize_active) (simp_all add: W_def evolving_world)
  define s where "s = \<bar>sin (- 100 / 741 * pi) * evolution_coefficient (consciousness_matrix W)\<bar>"
  define l where "l = fst (amplify_love_infinite (love_coefficient W) s 50)"
  define w3 where "w3 = W\<lparr> sovereignty_protocols :=
        snd (request_biological_consent sample_env (sovereignty_protocols W) ''e1''
               ''consciousness_evolution'' (- 100 - 10, - 100 + 10)),
      consciousness_matrix := consciousness_matrix W,
      love_coefficient := snd (amplify_love_infinite (love_coefficient W) s 50) \<rparr>"
  have w3: "grid_active (grid_harmonics w3)"
    using flags by (simp add: w3_def)
  have far: "1 \<le> \<bar>- 100 / min_by_key (\<lambda>x. \<bar>x - (- 100)\<bar>) SCHUMANN_FREQUENCIES - (1::real)\<bar>"
    unfolding best_schumann_minus_100 by simp
  define r3 where "r3 = empty_results\<lparr> entity_id := Some ''e1'', input_frequency := Some (- 100),
      timestamp := Some (time_now sample_env), status := Processing,
      recognition_triggered := Some (trigger_consciousness_recognition (recognition_pulse W) (- 100)),
      synthesis_coefficient := Some s, love_amplification := Some l \<rparr>"
  have R3: "R = grid_and_phi_steps w3 r3 (- 100) s l"
    unfolding R_def
    unfolding activate_active [OF flags(1) refl refl refl refl refl] r3_def w3_def l_def s_def
    by (simp only: granted syn fst_conv snd_conv not_True_eq_False if_False sum.case)
  have neg: "(- 100 :: real) < 0" by simp
  note n = grid_and_phi_steps_negative [OF w3 neg far, of r3 s l]
  show "status (fst (activate_consciousness_evolution sample_env
                  (snd (initialize_engine sample_env world_init)) ''e1'' (- 100))) = Error"
    using n(1) unfolding R3 [symmetric] R_def W_def .
  show "0 < planetary_alignment
         (grid_harmonics
            (snd (activate_consciousness_evolution sample_env
                    (snd (initialize_engine sample_env world_init)) ''e1'' (- 100))))"
    using n(2) simulated_alignment_positive [of "grid_harmonics w3"]
    unfolding R3 [symmetric] R_def W_def by simp
qed

text \<open>
  Two failed calls that change more than a consent record. From the module-load state
  the call at \<open>8\<close> Hz first initialises the engine and is then denied: the
  consciousness matrix has become active. On the initialised engine the call at
  \<open>-100\<close> Hz is granted, stores the planetary alignment in step 5 and then fails in the
  phi transform (the logarithm of a negative ratio): \<open>planetary_alignment\<close> has changed
  from \<open>0\<close> to a positive value.
\<close>

theorem failed_evolve_mutates_other_state:
  "status (fst (activate_consciousness_evolution sample_env world_init ''e1'' 8)) = Denied \<and>
   \<not> synthesis_active (consciousness_matrix world_init) \<and>
   synthesis_active
     (consciousness_matrix (snd (activate_consciousness_evolution sample_env world_init ''e1'' 8))) \<and>
   status (fst (activate_consciousness_evolution sample_env
                  (snd (initialize_engine sample_env world_init)) ''e1'' (- 100))) = Error \<and>
   planetary_alignment (grid_harmonics (snd (initialize_engine sample_env world_init))) = 0 \<and>
   0 < planetary_alignment
         (grid_harmonics
            (snd (activate_consciousness_evolution sample_env
                    (snd (initialize_engine sample_env world_init)) ''e1'' (- 100))))"
proof -
  define W where "W = snd (initialize_engine sample_env world_init)"
  have inactive: "\<not> engine_active (engine world_init)"
    by (simp add: world_init_def)
  have RW: "activate_consciousness_evolution sample_env world_init ''e1'' 8 =
            activate_consciousness_evolution sample_env W ''e1'' 8"
    unfolding W_def using inactive by (rule activate_inactive)
  have act: "all_active W" unfolding W_def by (rule initialize_engine_all_active)
  have den: "status (fst (activate_consciousness_evolution sample_env world_init ''e1'' 8)) = Denied"
    unfolding RW W_def by (rule denied_at_8)
  have eq: "activate_consciousness_evolution sample_env W ''e1'' 8 =
      (fst (activate_consciousness_evolution sample_env W ''e1'' 8),
       snd (activate_consciousness_evolution sample_env W ''e1'' 8))"
    by simp
  have on: "synthesis_active
     (consciousness_matrix (snd (activate_consciousness_evolution sample_env world_init ''e1'' 8)))"
    unfolding RW using activate_active_frame(1) [OF act eq] act by (simp add: all_active_def)
  have off: "\<not> synthesis_active (consciousness_matrix world_init)"
    by (simp add: world_init_def ConsciousnessMatrix_init_def)
  have zero: "planetary_alignment (grid_harmonics (snd (initialize_engine sample_env world_init))) = 0"
    by (simp add: initialize_engine_components initialize_planetary_grid_def world_init_def
        GridHarmonics_init_def)
  show ?thesis
    using den off on error_at_minus_100 zero by blast
qed

end
